theory Spec2Isabelle
  imports Main
begin

section \<open>Go strings and the functions of package \<open>strings\<close> that qik calls\<close>

text \<open>
  A Go string is a sequence of bytes; \<^typ>\<open>string\<close> is a list of 8-bit characters.
  The functions below follow the Go standard library on bytes. Where the library works on
  runes (UTF-8 sequences) the cases that can change a comparison made by qik are written
  out, and the comment of the function says what is left as it is.
\<close>

fun HasPrefix :: "string \<Rightarrow> string \<Rightarrow> bool" where
  "HasPrefix s [] = True"
| "HasPrefix [] (p # ps) = False"
| "HasPrefix (c # cs) (p # ps) = (c = p \<and> HasPrefix cs ps)"

definition HasSuffix :: "string \<Rightarrow> string \<Rightarrow> bool" where
  "HasSuffix s suffix = HasPrefix (rev s) (rev suffix)"

text \<open>\<open>strings.Contains(s, substr)\<close>: \<open>substr\<close> occurs at some position of \<open>s\<close>.\<close>

fun Contains :: "string \<Rightarrow> string \<Rightarrow> bool" where
  "Contains [] substr = (substr = [])"
| "Contains (c # cs) substr = (HasPrefix (c # cs) substr \<or> Contains cs substr)"

text \<open>
  \<open>strings.ReplaceAll(s, old, new)\<close>: the non-overlapping occurrences of \<open>old\<close>, found
  from left to right, are replaced by \<open>new\<close>. Every call in qik passes a non-empty
  literal for \<open>old\<close>; for an empty \<open>old\<close> Go inserts \<open>new\<close> before every rune and at the
  end, which is written here for one-byte runes.
\<close>

function ReplaceAll :: "string \<Rightarrow> string \<Rightarrow> string \<Rightarrow> string" where
  "ReplaceAll [] old new = (if old = [] then new else [])"
| "ReplaceAll (c # cs) old new =
     (if old = [] then new @ c # ReplaceAll cs old new
      else if HasPrefix (c # cs) old
        then new @ ReplaceAll (drop (length old) (c # cs)) old new
      else c # ReplaceAll cs old new)"
  by pat_completeness auto
termination
  by (relation "measure (\<lambda>(s, old, new). length s)") (auto simp: neq_Nil_conv)

definition isUpperASCII :: "char \<Rightarrow> bool" where
  "isUpperASCII c = (65 \<le> (of_char c :: nat) \<and> (of_char c :: nat) \<le> 90)"

definition isASCII :: "char \<Rightarrow> bool" where
  "isASCII c = ((of_char c :: nat) < 128)"

definition lowerASCII :: "char \<Rightarrow> char" where
  "lowerASCII c = (if isUpperASCII c then char_of ((of_char c :: nat) + 32) else c)"

text \<open>
  \<open>strings.ToLower\<close>. ASCII letters are lowered byte by byte. Two runes outside ASCII have
  an ASCII lower case in Go's tables and are written out: U+0130 (bytes C4 B0) becomes
  \<open>i\<close> and U+212A (bytes E2 84 AA) becomes \<open>k\<close>. Every other byte above 127 is copied: Go
  maps such a rune to a rune outside ASCII again, so the comparisons of the result with
  the ASCII literals \<open>default\<close> and \<open>english_fix_only\<close> come out the same.
\<close>

function ToLower :: "string \<Rightarrow> string" where
  "ToLower [] = []"
| "ToLower (c # cs) =
     (if c = CHR 0xC4 \<and> HasPrefix cs [CHR 0xB0] then CHR ''i'' # ToLower (drop 1 cs)
      else if c = CHR 0xE2 \<and> HasPrefix cs [CHR 0x84, CHR 0xAA] then CHR ''k'' # ToLower (drop 2 cs)
      else lowerASCII c # ToLower cs)"
  by pat_completeness auto
termination
  by (relation "measure length") auto

text \<open>
  \<open>strings.EqualFold\<close>: equality under Unicode simple case folding. Two ASCII bytes are
  equal when they are the same letter in either case. The only runes outside ASCII whose
  folding orbit holds an ASCII letter are U+017F (bytes C5 BF, with \<open>s\<close> and \<open>S\<close>) and
  U+212A (bytes E2 84 AA, with \<open>k\<close> and \<open>K\<close>). This is Go's result whenever one
  argument is ASCII, as in every call of qik (the literal \<open>English\<close>); two bytes above 127
  are compared as they are.
\<close>

function EqualFold :: "string \<Rightarrow> string \<Rightarrow> bool" where
  "EqualFold [] t = (t = [])"
| "EqualFold (a # s) [] = False"
| "EqualFold (a # s) (b # t) =
     (if isASCII a \<and> isASCII b then lowerASCII a = lowerASCII b \<and> EqualFold s t
      else if isASCII b then
        (if a = CHR 0xC5 \<and> HasPrefix s [CHR 0xBF] then lowerASCII b = CHR ''s'' \<and> EqualFold (drop 1 s) t
         else if a = CHR 0xE2 \<and> HasPrefix s [CHR 0x84, CHR 0xAA]
           then lowerASCII b = CHR ''k'' \<and> EqualFold (drop 2 s) t
         else False)
      else if isASCII a then
        (if b = CHR 0xC5 \<and> HasPrefix t [CHR 0xBF] then lowerASCII a = CHR ''s'' \<and> EqualFold s (drop 1 t)
         else if b = CHR 0xE2 \<and> HasPrefix t [CHR 0x84, CHR 0xAA]
           then lowerASCII a = CHR ''k'' \<and> EqualFold s (drop 2 t)
         else False)
      else a = b \<and> EqualFold s t)"
  by pat_completeness auto
termination
  by (relation "measure (\<lambda>(s, t). length s + length t)") auto

text \<open>
  \<open>unicode.IsSpace\<close>, as the UTF-8 encodings of the white space runes: the six ASCII ones,
  U+0085, U+00A0, U+1680, U+2000 to U+200A, U+2028, U+2029, U+202F, U+205F and U+3000.
\<close>

definition whitespaceEncodings :: "string list" where
  "whitespaceEncodings =
     [[CHR 0x09], [CHR 0x0A], [CHR 0x0B], [CHR 0x0C], [CHR 0x0D], [CHR 0x20],
      [CHR 0xC2, CHR 0x85], [CHR 0xC2, CHR 0xA0],
      [CHR 0xE1, CHR 0x9A, CHR 0x80],
      [CHR 0xE2, CHR 0x80, CHR 0x80], [CHR 0xE2, CHR 0x80, CHR 0x81],
      [CHR 0xE2, CHR 0x80, CHR 0x82], [CHR 0xE2, CHR 0x80, CHR 0x83],
      [CHR 0xE2, CHR 0x80, CHR 0x84], [CHR 0xE2, CHR 0x80, CHR 0x85],
      [CHR 0xE2, CHR 0x80, CHR 0x86], [CHR 0xE2, CHR 0x80, CHR 0x87],
      [CHR 0xE2, CHR 0x80, CHR 0x88], [CHR 0xE2, CHR 0x80, CHR 0x89],
      [CHR 0xE2, CHR 0x80, CHR 0x8A],
      [CHR 0xE2, CHR 0x80, CHR 0xA8], [CHR 0xE2, CHR 0x80, CHR 0xA9],
      [CHR 0xE2, CHR 0x80, CHR 0xAF], [CHR 0xE2, CHR 0x81, CHR 0x9F],
      [CHR 0xE3, CHR 0x80, CHR 0x80]]"

definition leadingSpace :: "string \<Rightarrow> string option" where
  "leadingSpace s = find (HasPrefix s) whitespaceEncodings"

definition trailingSpace :: "string \<Rightarrow> string option" where
  "trailingSpace s = find (HasSuffix s) whitespaceEncodings"

lemma HasPrefix_length: "HasPrefix s p \<Longrightarrow> length p \<le> length s"
  by (induction s p rule: HasPrefix.induct) auto

lemma whitespaceEncodings_nonempty: "w \<in> set whitespaceEncodings \<Longrightarrow> w \<noteq> []"
  by (auto simp: whitespaceEncodings_def)

lemma leadingSpace_Some: "leadingSpace s = Some w \<Longrightarrow> w \<noteq> [] \<and> length w \<le> length s"
proof -
  assume a: "leadingSpace s = Some w"
  then have "w \<in> set whitespaceEncodings" and "HasPrefix s w"
    by (auto simp: leadingSpace_def find_Some_iff)
  then show ?thesis
    using HasPrefix_length[of s w] whitespaceEncodings_nonempty[of w] by simp
qed

lemma trailingSpace_Some: "trailingSpace s = Some w \<Longrightarrow> w \<noteq> [] \<and> length w \<le> length s"
proof -
  assume a: "trailingSpace s = Some w"
  then have "w \<in> set whitespaceEncodings" and "HasSuffix s w"
    by (auto simp: trailingSpace_def find_Some_iff)
  then show ?thesis
    using HasPrefix_length[of "rev s" "rev w"] whitespaceEncodings_nonempty[of w]
    by (simp add: HasSuffix_def)
qed

function TrimLeft :: "string \<Rightarrow> string" where
  "TrimLeft s = (case leadingSpace s of None \<Rightarrow> s | Some w \<Rightarrow> TrimLeft (drop (length w) s))"
  by pat_completeness auto
termination
proof (relation "measure length")
  fix s w assume "leadingSpace s = Some w"
  from leadingSpace_Some[OF this] show "(drop (length w) s, s) \<in> measure length"
    by (cases w) auto
qed simp

function TrimRight :: "string \<Rightarrow> string" where
  "TrimRight s =
     (case trailingSpace s of None \<Rightarrow> s | Some w \<Rightarrow> TrimRight (take (length s - length w) s))"
  by pat_completeness auto
termination
proof (relation "measure length")
  fix s w assume "trailingSpace s = Some w"
  from trailingSpace_Some[OF this] show "(take (length s - length w) s, s) \<in> measure length"
    by (cases w) auto
qed simp

declare TrimLeft.simps [simp del] TrimRight.simps [simp del]

text \<open>\<open>strings.TrimSpace\<close>: leading, then trailing white space is cut off.\<close>

definition TrimSpace :: "string \<Rightarrow> string" where
  "TrimSpace s = TrimRight (TrimLeft s)"

section \<open>Configuration (package \<open>config\<close>)\<close>

record MoodInstruction =
  Description :: string
  Instruction :: string

record Prompts =
  Default :: string
  EnglishFixOnly :: string
  ExplainText :: string
  AnswerQuestion :: string

text \<open>
  \<open>Moods\<close> is a Go map from mood key to \<open>MoodInstruction\<close>. It is kept as an association
  list read with \<^const>\<open>map_of\<close>; the nil map and the empty map are both \<open>[]\<close>, and
  \<open>len(m) == 0\<close> is \<open>m = []\<close>.
\<close>

record Config =
  DefaultLanguage :: string
  Editor :: string
  GeminiAPIKey :: string
  GeminiModel :: string
  DefaultMood :: string
  Moods :: "(string \<times> MoodInstruction) list"
  Prompts :: Prompts

section \<open>Built-in defaults and configuration resolution (the root command)\<close>

definition defaultPrompt :: string where
  \<open>defaultPrompt =
     ''You are an expert proofreader and linguistic assistant.\<newline>'' @
     ''Your primary task is to meticulously review the following text.\<newline>'' @
     ''Correct all spelling and grammatical errors.\<newline>'' @
     ''Improve the flow and clarity of the text, rephrasing sentences or restructuring paragraphs if necessary to make it sound natural and well-written.\<newline>'' @
     ''The final output should be in {LANGUAGE}.\<newline>'' @
     ''{MOOD_INSTRUCTION}\<newline>'' @
     ''Do NOT include any preambles, apologies, or explanations in your response. Only return the corrected and refined text.\<newline>'' @
     ''\<newline>'' @
     ''Original text to process:\<newline>'' @
     ''---\<newline>'' @
     ''{TEXT}\<newline>'' @
     ''---''\<close>

definition defaultEnglishFixOnlyPrompt :: string where
  \<open>defaultEnglishFixOnlyPrompt =
     ''You are an expert English proofreader.\<newline>'' @
     ''Your primary task is to meticulously review the following English text.\<newline>'' @
     ''Correct all spelling and grammatical errors.\<newline>'' @
     ''Improve the flow and clarity of the text, rephrasing sentences or restructuring paragraphs if necessary to make it sound natural and well-written.\<newline>'' @
     ''The text is already in English, so no translation is needed.\<newline>'' @
     ''{MOOD_INSTRUCTION}\<newline>'' @
     ''Do NOT include any preambles, apologies, or explanations in your response. Only return the corrected and refined text.\<newline>'' @
     ''\<newline>'' @
     ''Original text to process:\<newline>'' @
     ''---\<newline>'' @
     ''{TEXT}\<newline>'' @
     ''---''\<close>

definition defaultExplainTextPrompt :: string where
  \<open>defaultExplainTextPrompt =
     ''You are an expert at simplifying complex topics.\<newline>'' @
     ''The user will provide a piece of text. Your task is to explain the main concepts or what the person is talking about in that text.\<newline>'' @
     ''The explanation should be:\<newline>'' @
     ''1. Simple and easy to understand, even for someone not familiar with the topic.\<newline>'' @
     ''2. Concise and to the point. Aim for a short summary.\<newline>'' @
     ''3. If a specific output language is requested via the {LANGUAGE} placeholder, use that language. Otherwise, attempt to provide the explanation in the SAME language as the input text ({TEXT}).\<newline>'' @
     ''Do NOT include any preambles, apologies, or phrases like "This text is about...". Just provide the explanation directly.\<newline>'' @
     ''\<newline>'' @
     ''Text to explain:\<newline>'' @
     ''---\<newline>'' @
     ''{TEXT}\<newline>'' @
     ''---''\<close>

definition defaultAnswerQuestionPrompt :: string where
  \<open>defaultAnswerQuestionPrompt =
     ''You are an intelligent and helpful assistant.\<newline>'' @
     ''The user will provide a question. Your task is to provide a clear, concise, and accurate answer to that question.\<newline>'' @
     ''Consider the following when formulating your response:\<newline>'' @
     ''1. Directly address the question asked.\<newline>'' @
     ''2. Provide the answer in the {LANGUAGE} language.\<newline>'' @
     ''3. Adjust the tone of your answer according to the specified mood: {MOOD_INSTRUCTION}\<newline>'' @
     ''   If no specific mood instruction is given for "neutral", answer in a helpful and informative default tone.\<newline>'' @
     ''Do NOT include any preambles like "Here is the answer to your question:" or "The answer is:". Just provide the answer directly.\<newline>'' @
     ''\<newline>'' @
     ''Question to answer:\<newline>'' @
     ''---\<newline>'' @
     ''{TEXT}\<newline>'' @
     ''---''\<close>

definition defaultPromptsConfig :: Prompts where
  "defaultPromptsConfig =
     \<lparr>Default = defaultPrompt,
      EnglishFixOnly = defaultEnglishFixOnlyPrompt,
      ExplainText = defaultExplainTextPrompt,
      AnswerQuestion = defaultAnswerQuestionPrompt\<rparr>"

definition getDefaultMoods :: "(string \<times> MoodInstruction) list" where
  \<open>getDefaultMoods =
     [(''neutral'', \<lparr>Description = ''Standard correction without specific tone alteration. Relies on base prompt's natural styling.'',
        Instruction = ''''\<rparr>),
      (''professional'', \<lparr>Description = ''Refine text to be formal, objective, and suitable for business or academic contexts.'',
        Instruction = ''Additionally, adjust the tone of the text to be highly professional, formal, and objective. Avoid colloquialisms and ensure a polished, business-like feel.''\<rparr>),
      (''casual'', \<lparr>Description = ''Make the text sound more relaxed, friendly, and conversational.'',
        Instruction = ''Additionally, adjust the tone of the text to be more casual, friendly, and conversational. Use simpler language and a more relaxed style where appropriate.''\<rparr>),
      (''funny'', \<lparr>Description = ''Inject humor, wit, or lightheartedness into the text (use with care).'',
        Instruction = ''Additionally, try to inject appropriate and subtle humor or a lighthearted tone into the text. Make it engaging and amusing without undermining the core message, if applicable.''\<rparr>),
      (''persuasive'', \<lparr>Description = ''Make the text more convincing, confident, and impactful.'',
        Instruction = ''Additionally, refine the text to be more persuasive and impactful. Strengthen arguments, use confident language, and aim to convince the reader.''\<rparr>),
      (''empathetic'', \<lparr>Description = ''Adjust the text to convey understanding, support, and compassion.'',
        Instruction = ''Additionally, adjust the tone to be empathetic and supportive. Use language that conveys understanding and compassion, suitable for sensitive topics.''\<rparr>),
      (''concise'', \<lparr>Description = ''Make the text as brief and to-the-point as possible, removing fluff.'',
        Instruction = ''Additionally, ensure the text is extremely concise and to-the-point. Remove any redundant words or phrases and focus on conveying the core message with maximum brevity.''\<rparr>)]\<close>

text \<open>
  \<open>fmt.Sprintf\<close> for the verbs qik uses on strings and errors (\<open>%s\<close> and \<open>%v\<close>), with as many
  arguments as verbs; a verb without an argument prints Go's \<open>%!s(MISSING)\<close>.
\<close>

fun Sprintf :: "string \<Rightarrow> string list \<Rightarrow> string" where
  "Sprintf [] args = []"
| "Sprintf [c] args = [c]"
| "Sprintf (c # d # cs) args =
     (if c = CHR ''%'' \<and> (d = CHR ''s'' \<or> d = CHR ''v'') then
        (case args of
           [] \<Rightarrow> ''%!'' @ [d] @ ''(MISSING)'' @ Sprintf cs []
         | a # as \<Rightarrow> a @ Sprintf cs as)
      else c # Sprintf (d # cs) args)"

text \<open>
  \<open>printVerbose\<close>: what is written to standard output, as a list of writes. Nothing is
  written unless \<open>verbose\<close> is set; a newline is appended to a format that lacks one.
\<close>

definition printVerbose :: "bool \<Rightarrow> string \<Rightarrow> string list \<Rightarrow> string list" where
  "printVerbose verbose format a =
     (if verbose then
        [Sprintf (if \<not> HasSuffix format ''\<newline>'' then format @ ''\<newline>'' else format) a]
      else [])"

text \<open>
  \<open>initConfig\<close>, from the point where \<open>viper.Unmarshal\<close> has filled \<open>AppConfig\<close>. The search
  for the file, its creation when it is missing, the reading and the overlay of the
  environment decide only the value \<open>decoded\<close> that \<open>AppConfig\<close> holds then (the zero value
  when nothing could be read, and whatever was decoded when the decoding failed half-way);
  no branch before that point returns or exits, so the defaults below are applied to it in
  every case. Each \<open>if\<close> of the source tests and
  assigns one field, so each is one binding here, in the source's order. The result is the
  final \<open>AppConfig\<close> and what \<open>printVerbose\<close> wrote.
\<close>

definition initConfig :: "bool \<Rightarrow> Config \<Rightarrow> Config \<times> string list" where
  "initConfig verbose decoded =
     (let b1 = (DefaultLanguage decoded = []);
          o1 = (if b1
                then printVerbose verbose ''DefaultLanguage not set in config, using program default: Norwegian'' []
                else []);
          defaultLanguage = (if b1 then ''Norwegian'' else DefaultLanguage decoded);
          b2 = (Editor decoded = []);
          o2 = (if b2
                then printVerbose verbose ''Editor not set in config, using program default: nvim'' []
                else []);
          editor = (if b2 then ''nvim'' else Editor decoded);
          b3 = (GeminiModel decoded = []);
          o3 = (if b3
                then printVerbose verbose
                       ''GeminiModel not set in config, using program default: gemini-1.5-flash-latest'' []
                else []);
          geminiModel = (if b3 then ''gemini-1.5-flash-latest'' else GeminiModel decoded);
          b4 = (DefaultMood decoded = []);
          o4 = (if b4
                then printVerbose verbose ''DefaultMood not set in config, using program default: neutral'' []
                else []);
          defaultMood = (if b4 then ''neutral'' else DefaultMood decoded);
          b5 = (Default (Prompts decoded) = []
                \<or> \<not> Contains (Default (Prompts decoded)) ''{MOOD_INSTRUCTION}'');
          o5 = (if b5
                then printVerbose verbose ''Default prompt missing or outdated, setting to program default.'' []
                else []);
          promptDefault = (if b5 then Default defaultPromptsConfig else Default (Prompts decoded));
          b6 = (EnglishFixOnly (Prompts decoded) = []
                \<or> \<not> Contains (EnglishFixOnly (Prompts decoded)) ''{MOOD_INSTRUCTION}'');
          o6 = (if b6
                then printVerbose verbose
                       ''EnglishFixOnly prompt missing or outdated, setting to program default.'' []
                else []);
          promptEnglishFixOnly =
               (if b6 then EnglishFixOnly defaultPromptsConfig else EnglishFixOnly (Prompts decoded));
          b7 = (ExplainText (Prompts decoded) = []);
          o7 = (if b7
                then printVerbose verbose ''ExplainText prompt missing, setting to program default.'' []
                else []);
          promptExplainText =
               (if b7 then ExplainText defaultPromptsConfig else ExplainText (Prompts decoded));
          b8 = (AnswerQuestion (Prompts decoded) = []);
          o8 = (if b8
                then printVerbose verbose ''AnswerQuestion prompt missing, setting to program default.'' []
                else []);
          promptAnswerQuestion =
               (if b8 then AnswerQuestion defaultPromptsConfig else AnswerQuestion (Prompts decoded));
          b9 = (Moods decoded = []);
          o9 = (if b9
                then printVerbose verbose ''Moods not set in config, using program defaults.'' []
                else []);
          moods = (if b9 then getDefaultMoods else Moods decoded)
      in (\<lparr>DefaultLanguage = defaultLanguage, Editor = editor,
           GeminiAPIKey = GeminiAPIKey decoded, GeminiModel = geminiModel,
           DefaultMood = defaultMood, Moods = moods,
           Prompts = \<lparr>Default = promptDefault, EnglishFixOnly = promptEnglishFixOnly,
                      ExplainText = promptExplainText, AnswerQuestion = promptAnswerQuestion\<rparr>\<rparr>,
          o1 @ o2 @ o3 @ o4 @ o5 @ o6 @ o7 @ o8 @ o9))"

text \<open>The zero value of \<open>config.Config\<close>: what \<open>AppConfig\<close> holds when nothing was decoded.\<close>

definition zeroConfig :: Config where
  "zeroConfig =
     \<lparr>DefaultLanguage = [], Editor = [], GeminiAPIKey = [], GeminiModel = [], DefaultMood = [],
      Moods = [],
      Prompts = \<lparr>Default = [], EnglishFixOnly = [], ExplainText = [], AnswerQuestion = []\<rparr>\<rparr>"

section \<open>The world outside: editor, credential chain, model client, clipboard\<close>

text \<open>
  What a run does to the outside is a list of events in the order they happen, and the
  exit code of the process. \<open>log.Fatal\<close> and \<open>log.Fatalf\<close> write their message to standard
  error (the time stamp that package \<open>log\<close> puts in front and the newline it puts at the end are
  left out) and exit with code 1.
\<close>

datatype event =
    Stdout string
  | Stderr string
  | RunEditor string
  | NewClient string string
  | GenerateContent string
  | WriteClipboard string

text \<open>
  The collaborators answer as the world decides; an error is \<open>Inl\<close> with its message.
  \<^item> \<open>getGeminiAPIKey\<close>: the result of \<open>utils.GetGeminiAPIKey\<close> (environment, \<open>pass\<close>,
    configuration field); what it prints in verbose mode is not recorded.
  \<^item> \<open>getTextFromEditor\<close>: the result of \<open>editor.GetTextFromEditor\<close> for an editor command.
  \<^item> \<open>newGeminiClient\<close>: the error of \<open>ai.NewGeminiClient\<close> for a key and a model name, if any.
  \<^item> \<open>generateContent\<close>: the API call of \<open>ProcessText\<close> on the final prompt together with the
    checks of its response: an error, or the text of the first part of the first candidate.
    The line that \<open>ProcessText\<close> logs for a response without candidates is not recorded.
  \<^item> \<open>copyToClipboard\<close>: the error of \<open>clipboard.CopyToClipboard\<close>, if any.
\<close>

record world =
  getGeminiAPIKey :: "string + string"
  getTextFromEditor :: "string \<Rightarrow> string + string"
  newGeminiClient :: "string \<Rightarrow> string \<Rightarrow> string option"
  generateContent :: "string \<Rightarrow> string + string"
  copyToClipboard :: "string \<Rightarrow> string option"

section \<open>The model client (\<open>ai.ProcessText\<close>)\<close>

text \<open>The prompt that \<open>ProcessText\<close> sends: \<open>{TEXT}\<close> is filled first, then \<open>{LANGUAGE}\<close>.\<close>

definition ProcessText_finalPrompt :: "string \<Rightarrow> string \<Rightarrow> string \<Rightarrow> string" where
  "ProcessText_finalPrompt textToProcess promptTemplate targetLanguage =
     (let promptWithText = ReplaceAll promptTemplate ''{TEXT}'' textToProcess;
          finalPrompt = ReplaceAll promptWithText ''{LANGUAGE}'' targetLanguage
      in finalPrompt)"

definition ProcessText :: "world \<Rightarrow> string \<Rightarrow> string \<Rightarrow> string \<Rightarrow> event list \<times> (string + string)" where
  "ProcessText w textToProcess promptTemplate targetLanguage =
     (let finalPrompt = ProcessText_finalPrompt textToProcess promptTemplate targetLanguage
      in ([GenerateContent finalPrompt], generateContent w finalPrompt))"

section \<open>The \<open>fix\<close> command\<close>

text \<open>
  The flags of \<open>fix\<close>. \<open>promptChanged\<close> and \<open>moodChanged\<close> are \<open>cmd.Flags().Changed\<close> for
  \<open>prompt\<close> and \<open>mood\<close>: whether the flag was given on the command line.
\<close>

record fixFlags =
  language :: string
  promptKey :: string
  englishShorthand :: bool
  moodKey :: string
  promptChanged :: bool
  moodChanged :: bool

definition PersistentPreRunE :: "fixFlags \<Rightarrow> string + fixFlags" where
  "PersistentPreRunE f =
     (if englishShorthand f then
        (if language f \<noteq> [] \<and> \<not> EqualFold (language f) ''English'' then
           Inl ''--english flag is incompatible with --language specifying a different language than English''
         else
           Inr (f\<lparr>language := ''English'',
                  promptKey := (if \<not> promptChanged f then ''english_fix_only'' else promptKey f)\<rparr>))
      else Inr f)"

text \<open>
  Lines 47 to 74 of \<open>fix.go\<close>: the target language and the template. The result is
  \<open>chosenPromptTemplate\<close>, \<open>targetLanguage\<close> and what was printed.
\<close>

definition fix_chosenPromptTemplate :: "Config \<Rightarrow> fixFlags \<Rightarrow> string \<times> string \<times> string list" where
  "fix_chosenPromptTemplate cfg f =
     (let targetLanguage = (if language f \<noteq> [] then language f else DefaultLanguage cfg)
      in if promptKey f \<noteq> [] then
           (if ToLower (promptKey f) = ''default'' then
              (Default (Prompts cfg), targetLanguage, [])
            else if ToLower (promptKey f) = ''english_fix_only'' then
              (EnglishFixOnly (Prompts cfg), ''English'', [])
            else
              (Default (Prompts cfg), targetLanguage,
               [Sprintf ''Warning: Unknown prompt key '%s'. Using default prompt for language %s.\<newline>''
                  [promptKey f, targetLanguage]]))
         else if EqualFold targetLanguage ''English'' \<and> EnglishFixOnly (Prompts cfg) \<noteq> [] then
           (EnglishFixOnly (Prompts cfg), targetLanguage, [])
         else (Default (Prompts cfg), targetLanguage, []))"

text \<open>
  Lines 79 to 100 of \<open>fix.go\<close>: the mood. The result is \<open>selectedMoodKey\<close>,
  \<open>moodInstructionText\<close> and what was printed. The key is not rewritten on the fallback.
\<close>

definition fix_moodInstructionText :: "Config \<Rightarrow> fixFlags \<Rightarrow> string \<times> string \<times> string list" where
  "fix_moodInstructionText cfg f =
     (let selectedMoodKey = (if moodChanged f then moodKey f else DefaultMood cfg)
      in case map_of (Moods cfg) selectedMoodKey of
           Some mood \<Rightarrow> (selectedMoodKey, Instruction mood, [])
         | None \<Rightarrow>
             (let o1 = (if selectedMoodKey \<noteq> [] \<and> selectedMoodKey \<noteq> DefaultMood cfg then
                          [Sprintf (''Warning: Mood key '%s' not found. Using default ('%s') or applying '' @
                                    ''no specific mood styling if default is also misconfigured.\<newline>'')
                             [selectedMoodKey, DefaultMood cfg]]
                        else [])
              in case map_of (Moods cfg) (DefaultMood cfg) of
                   Some defaultMood \<Rightarrow> (selectedMoodKey, Instruction defaultMood, o1)
                 | None \<Rightarrow>
                     (selectedMoodKey, [],
                      o1 @ [Sprintf (''Warning: Default mood '%s' also not found or has no instruction. '' @
                                     ''No specific mood styling applied.\<newline>'')
                              [DefaultMood cfg]])))"

text \<open>Line 104: the mood instruction is put into the chosen template.\<close>

definition fix_finalPrompt :: "Config \<Rightarrow> fixFlags \<Rightarrow> string" where
  "fix_finalPrompt cfg f =
     (case fix_chosenPromptTemplate cfg f of
        (chosenPromptTemplate, targetLanguage, o1) \<Rightarrow>
          (case fix_moodInstructionText cfg f of
             (selectedMoodKey, moodInstructionText, o2) \<Rightarrow>
               ReplaceAll chosenPromptTemplate ''{MOOD_INSTRUCTION}'' moodInstructionText))"

text \<open>Lines 129 to 140: the corrected text goes to the clipboard.\<close>

definition fix_deliver :: "world \<Rightarrow> string \<Rightarrow> event list \<times> nat" where
  "fix_deliver w processedText =
     (case copyToClipboard w processedText of
        Some err \<Rightarrow>
          ([WriteClipboard processedText,
            Stderr (Sprintf ''Error copying to clipboard: %v.\<newline>'' [err]),
            Stdout ''\<newline>--- Corrected Text (Clipboard Failed) ---\<newline>'',
            Stdout (processedText @ ''\<newline>''),
            Stdout ''-----------------------------------------\<newline>'',
            Stderr ''Failed to copy to clipboard.''], 1)
      | None \<Rightarrow>
          ([WriteClipboard processedText, Stdout ''Corrected text copied to clipboard!\<newline>''], 0))"

text \<open>Lines 116 to 127: the client is made and the text is processed.\<close>

definition fix_submit ::
    "world \<Rightarrow> bool \<Rightarrow> Config \<Rightarrow> fixFlags \<Rightarrow> string \<Rightarrow> string \<Rightarrow> string \<Rightarrow> string \<Rightarrow> string
      \<Rightarrow> event list \<times> nat" where
  "fix_submit w verbose cfg f apiKey targetLanguage selectedMoodKey finalPrompt inputText =
     (let e1 = Stdout ''Processing text...\<newline>'' #
               map Stdout (printVerbose verbose ''INFO: Using Language: %s, Mood: %s, PromptKey: %s''
                             [targetLanguage, selectedMoodKey, promptKey f]) @
               [NewClient apiKey (GeminiModel cfg)]
      in case newGeminiClient w apiKey (GeminiModel cfg) of
           Some err \<Rightarrow> (e1 @ [Stderr (Sprintf ''Error creating AI client: %v'' [err])], 1)
         | None \<Rightarrow>
             (case ProcessText w inputText finalPrompt targetLanguage of
                (e2, Inl err) \<Rightarrow>
                  (e1 @ e2 @ [Stderr (Sprintf ''Error processing text with AI: %v'' [err])], 1)
              | (e2, Inr processedText) \<Rightarrow>
                  (case fix_deliver w processedText of (e3, code) \<Rightarrow> (e1 @ e2 @ e3, code))))"

text \<open>The \<open>Run\<close> function of \<open>fixCmd\<close>.\<close>

definition fixCmd_Run :: "world \<Rightarrow> bool \<Rightarrow> Config \<Rightarrow> fixFlags \<Rightarrow> event list \<times> nat" where
  "fixCmd_Run w verbose cfg f =
     (case getGeminiAPIKey w of
        Inl err \<Rightarrow> ([Stderr (Sprintf ''Error getting API key: %v'' [err])], 1)
      | Inr apiKey \<Rightarrow>
          if apiKey = [] then
            ([Stderr (''Gemini API key not found. Set GEMINI_API_KEY, use 'pass gemini_api_key', '' @
                      ''or set 'geminiApiKey' in config.'')], 1)
          else
            (case fix_chosenPromptTemplate cfg f of
               (chosenPromptTemplate, targetLanguage, o1) \<Rightarrow>
                 if chosenPromptTemplate = [] then
                   (map Stdout o1 @
                    [Stderr ''Error: No suitable prompt template could be determined. Check configuration.''], 1)
                 else
                   (case fix_moodInstructionText cfg f of
                      (selectedMoodKey, moodInstructionText, o2) \<Rightarrow>
                        (let finalPrompt = fix_finalPrompt cfg f;
                             e0 = map Stdout (o1 @ o2) @
                                  [Stdout ''Opening editor for input...\<newline>'', RunEditor (Editor cfg)]
                         in case getTextFromEditor w (Editor cfg) of
                              Inl err \<Rightarrow>
                                (e0 @ [Stderr (Sprintf ''Error getting text from editor: %v'' [err])], 1)
                            | Inr inputText \<Rightarrow>
                                if TrimSpace inputText = [] then
                                  (e0 @ [Stdout ''No input provided. Exiting.\<newline>''], 0)
                                else
                                  (case fix_submit w verbose cfg f apiKey targetLanguage selectedMoodKey
                                          finalPrompt inputText of
                                     (e1, code) \<Rightarrow> (e0 @ e1, code))))))"

text \<open>
  The command as cobra runs it: \<open>PersistentPreRunE\<close> first and, when it returns an error,
  \<open>Run\<close> is not called; \<open>Execute\<close> prints the error to standard error and exits with 1.
  What cobra itself writes about the error (its own error line and the usage text) is
  left out.
\<close>

definition fixCmd :: "world \<Rightarrow> bool \<Rightarrow> Config \<Rightarrow> fixFlags \<Rightarrow> event list \<times> nat" where
  "fixCmd w verbose cfg f =
     (case PersistentPreRunE f of
        Inl err \<Rightarrow> ([Stderr (err @ ''\<newline>'')], 1)
      | Inr f' \<Rightarrow> fixCmd_Run w verbose cfg f')"

section \<open>The \<open>answer\<close> command\<close>

text \<open>
  The flags of \<open>answer\<close>; \<open>answerLanguageChanged\<close> and \<open>answerMoodChanged\<close> are
  \<open>cmd.Flags().Changed\<close> for \<open>language\<close> and \<open>mood\<close>.
\<close>

record answerFlags =
  answerLanguage :: string
  answerMoodKey :: string
  answerCopyToClipboard :: bool
  answerLanguageChanged :: bool
  answerMoodChanged :: bool

definition answer_targetLanguage :: "Config \<Rightarrow> answerFlags \<Rightarrow> string" where
  "answer_targetLanguage cfg f =
     (if answerLanguageChanged f then answerLanguage f else DefaultLanguage cfg)"

text \<open>
  Lines 51 to 73 of \<open>answer.go\<close>: the mood. The result is \<open>selectedMoodKey\<close>,
  \<open>moodInstructionText\<close> and what was printed. On the fallback the key becomes the
  configured default.
\<close>

definition answer_moodLookup :: "Config \<Rightarrow> answerFlags \<Rightarrow> string \<times> string \<times> string list" where
  "answer_moodLookup cfg f =
     (let selectedMoodKey = (if answerMoodChanged f then answerMoodKey f else DefaultMood cfg)
      in case map_of (Moods cfg) selectedMoodKey of
           Some mood \<Rightarrow> (selectedMoodKey, Instruction mood, [])
         | None \<Rightarrow>
             (let o1 = (if selectedMoodKey \<noteq> [] \<and> selectedMoodKey \<noteq> DefaultMood cfg then
                          [Sprintf (''Warning: Mood key '%s' not found in configuration. '' @
                                    ''Using default mood ('%s').\<newline>'')
                             [selectedMoodKey, DefaultMood cfg]]
                        else [])
              in case map_of (Moods cfg) (DefaultMood cfg) of
                   Some defaultMood \<Rightarrow> (DefaultMood cfg, Instruction defaultMood, o1)
                 | None \<Rightarrow>
                     (selectedMoodKey, [],
                      o1 @ [Sprintf (''Warning: Default mood '%s' not found or has no instruction. '' @
                                     ''Applying no specific mood styling.\<newline>'')
                              [DefaultMood cfg]])))"

text \<open>Lines 75 to 79: an empty instruction under the key \<open>neutral\<close> gets a fixed sentence.\<close>

definition answer_moodInstructionText :: "Config \<Rightarrow> answerFlags \<Rightarrow> string" where
  "answer_moodInstructionText cfg f =
     (case answer_moodLookup cfg f of
        (selectedMoodKey, moodInstructionText, o1) \<Rightarrow>
          if moodInstructionText = [] \<and> selectedMoodKey = ''neutral''
          then ''Answer in a standard, helpful, and informative tone.''
          else moodInstructionText)"

text \<open>Line 89: the mood instruction is put into the \<open>answer_question\<close> template.\<close>

definition answer_promptWithMood :: "Config \<Rightarrow> answerFlags \<Rightarrow> string" where
  "answer_promptWithMood cfg f =
     ReplaceAll (AnswerQuestion (Prompts cfg)) ''{MOOD_INSTRUCTION}'' (answer_moodInstructionText cfg f)"

text \<open>Lines 114 to 128: the answer is printed and, with \<open>--copy\<close>, copied.\<close>

definition answer_deliver :: "world \<Rightarrow> answerFlags \<Rightarrow> string \<Rightarrow> event list \<times> nat" where
  "answer_deliver w f answer =
     ([Stdout ''\<newline>--- Answer ---\<newline>'',
       Stdout (TrimSpace answer @ ''\<newline>''),
       Stdout ''--------------\<newline>''] @
      (if answerCopyToClipboard f then
         (case copyToClipboard w answer of
            Some err \<Rightarrow>
              [WriteClipboard answer,
               Stderr (Sprintf ''\<newline>Warning: Error copying answer to clipboard: %v.\<newline>'' [err])]
          | None \<Rightarrow>
              [WriteClipboard answer, Stdout ''\<newline>Answer also copied to clipboard!\<newline>''])
       else []), 0)"

text \<open>Lines 101 to 112: the client is made and the answer is generated.\<close>

definition answer_submit ::
    "world \<Rightarrow> bool \<Rightarrow> Config \<Rightarrow> answerFlags \<Rightarrow> string \<Rightarrow> string \<Rightarrow> string \<Rightarrow> string \<Rightarrow> string
      \<Rightarrow> event list \<times> nat" where
  "answer_submit w verbose cfg f apiKey targetLanguage selectedMoodKey promptWithMood inputText =
     (let e1 = Stdout ''Generating answer...\<newline>'' #
               map Stdout (printVerbose verbose ''INFO: Answering with Language: %s, Mood: %s''
                             [targetLanguage, selectedMoodKey]) @
               [NewClient apiKey (GeminiModel cfg)]
      in case newGeminiClient w apiKey (GeminiModel cfg) of
           Some err \<Rightarrow> (e1 @ [Stderr (Sprintf ''Error creating AI client: %v'' [err])], 1)
         | None \<Rightarrow>
             (case ProcessText w inputText promptWithMood targetLanguage of
                (e2, Inl err) \<Rightarrow>
                  (e1 @ e2 @ [Stderr (Sprintf ''Error generating answer with AI: %v'' [err])], 1)
              | (e2, Inr answer) \<Rightarrow>
                  (case answer_deliver w f answer of (e3, code) \<Rightarrow> (e1 @ e2 @ e3, code))))"

text \<open>The \<open>Run\<close> function of \<open>answerCmd\<close>.\<close>

definition answerCmd_Run :: "world \<Rightarrow> bool \<Rightarrow> Config \<Rightarrow> answerFlags \<Rightarrow> event list \<times> nat" where
  "answerCmd_Run w verbose cfg f =
     (case getGeminiAPIKey w of
        Inl err \<Rightarrow> ([Stderr (Sprintf ''Error getting API key: %v'' [err])], 1)
      | Inr apiKey \<Rightarrow>
          if apiKey = [] then
            ([Stderr (''Gemini API key not found. Set GEMINI_API_KEY, use 'pass gemini_api_key', '' @
                      ''or set 'geminiApiKey' in config.'')], 1)
          else
            (case answer_moodLookup cfg f of
               (selectedMoodKey, moodInstructionText, o1) \<Rightarrow>
                 if AnswerQuestion (Prompts cfg) = [] then
                   (map Stdout o1 @
                    [Stderr (''Error: 'answer_question' prompt not defined in configuration. '' @
                             ''Check your config file.'')], 1)
                 else
                   (let targetLanguage = answer_targetLanguage cfg f;
                        promptWithMood = answer_promptWithMood cfg f;
                        e0 = map Stdout o1 @
                             [Stdout ''Opening editor for your question...\<newline>'', RunEditor (Editor cfg)]
                    in case getTextFromEditor w (Editor cfg) of
                         Inl err \<Rightarrow>
                           (e0 @ [Stderr (Sprintf ''Error getting text from editor: %v'' [err])], 1)
                       | Inr inputText \<Rightarrow>
                           if TrimSpace inputText = [] then
                             (e0 @ [Stdout ''No question provided. Exiting.\<newline>''], 0)
                           else
                             (case answer_submit w verbose cfg f apiKey targetLanguage selectedMoodKey
                                     promptWithMood inputText of
                                (e1, code) \<Rightarrow> (e0 @ e1, code)))))"

text \<open>The events that the claims speak of.\<close>

fun isRunEditor :: "event \<Rightarrow> bool" where
  "isRunEditor (RunEditor c) = True"
| "isRunEditor e = False"

fun isNetwork :: "event \<Rightarrow> bool" where
  "isNetwork (NewClient k m) = True"
| "isNetwork (GenerateContent p) = True"
| "isNetwork e = False"

fun isWriteClipboard :: "event \<Rightarrow> bool" where
  "isWriteClipboard (WriteClipboard t) = True"
| "isWriteClipboard e = False"

section \<open>Example inputs\<close>

text \<open>
  The configuration that \<open>initConfig\<close> yields when nothing was decoded, flag records with no
  flag given, a world in which every collaborator succeeds, a configuration whose
  \<open>default\<close> template passes the check of \<open>initConfig\<close> without holding \<open>{TEXT}\<close>, a
  configuration with three loaded templates, a configuration whose moods map has neither
  \<open>neutral\<close> nor its default mood, the instruction of the built-in mood \<open>professional\<close>, and
  the flags \<open>-l English -m professional\<close>.
\<close>

definition builtinConfig :: Config where
  "builtinConfig = fst (initConfig False zeroConfig)"

definition noFixFlags :: fixFlags where
  "noFixFlags = \<lparr>language = [], promptKey = [], englishShorthand = False, moodKey = [],
                  promptChanged = False, moodChanged = False\<rparr>"

definition noAnswerFlags :: answerFlags where
  "noAnswerFlags = \<lparr>answerLanguage = [], answerMoodKey = [], answerCopyToClipboard = False,
                     answerLanguageChanged = False, answerMoodChanged = False\<rparr>"

definition quietWorld :: "string \<Rightarrow> world" where
  "quietWorld inputText =
     \<lparr>getGeminiAPIKey = Inr ''secret'', getTextFromEditor = (\<lambda>editorCmd. Inr inputText),
      newGeminiClient = (\<lambda>apiKey modelName. None), generateContent = (\<lambda>prompt. Inr ''ok''),
      copyToClipboard = (\<lambda>t. None)\<rparr>"

definition staleConfig :: Config where
  "staleConfig = zeroConfig\<lparr>Prompts :=
      \<lparr>Default = ''Fix this politely. {MOOD_INSTRUCTION}'', EnglishFixOnly = [],
       ExplainText = [], AnswerQuestion = []\<rparr>\<rparr>"

definition customConfig :: Config where
  "customConfig = zeroConfig\<lparr>Prompts :=
      \<lparr>Default = ''Rewrite {TEXT} kindly. {MOOD_INSTRUCTION}'',
       EnglishFixOnly = ''Proofread this English text: {TEXT}'',
       ExplainText = ''Explain briefly.'', AnswerQuestion = []\<rparr>\<rparr>"

definition sparseConfig :: Config where
  "sparseConfig = builtinConfig\<lparr>DefaultMood := ''zen'',
      Moods := [(''casual'', \<lparr>Description = ''Relaxed wording.'', Instruction = ''Keep it casual.''\<rparr>)]\<rparr>"

definition professionalInstruction :: string where
  "professionalInstruction = ''Additionally, adjust the tone of the text to be highly professional, formal, and objective. Avoid colloquialisms and ensure a polished, business-like feel.''"

definition professionalFlags :: fixFlags where
  "professionalFlags = noFixFlags\<lparr>language := ''English'', moodKey := ''professional'', moodChanged := True\<rparr>"

section \<open>The built-in templates, cut at their placeholders\<close>

text \<open>
  Each built-in template is the concatenation of its placeholders and of the pieces of
  text between them; no piece holds an opening brace. Replacement can then be followed
  piece by piece.
\<close>

definition defaultPrompt_1 :: string where
  \<open>defaultPrompt_1 =
     ''You are an expert proofreader and linguistic assistant.\<newline>'' @
     ''Your primary task is to meticulously review the following text.\<newline>'' @
     ''Correct all spelling and grammatical errors.\<newline>'' @
     ''Improve the flow and clarity of the text, rephrasing sentences or restructuring paragraphs if necessary to make it sound natural and well-written.\<newline>'' @
     ''The final output should be in ''\<close>

definition defaultPrompt_2 :: string where
  \<open>defaultPrompt_2 =
     ''.\<newline>''\<close>

definition defaultPrompt_3 :: string where
  \<open>defaultPrompt_3 =
     ''\<newline>'' @
     ''Do NOT include any preambles, apologies, or explanations in your response. Only return the corrected and refined text.\<newline>'' @
     ''\<newline>'' @
     ''Original text to process:\<newline>'' @
     ''---\<newline>''\<close>

definition defaultPrompt_4 :: string where
  \<open>defaultPrompt_4 =
     ''\<newline>'' @
     ''---''\<close>

definition defaultEnglishFixOnlyPrompt_1 :: string where
  \<open>defaultEnglishFixOnlyPrompt_1 =
     ''You are an expert English proofreader.\<newline>'' @
     ''Your primary task is to meticulously review the following English text.\<newline>'' @
     ''Correct all spelling and grammatical errors.\<newline>'' @
     ''Improve the flow and clarity of the text, rephrasing sentences or restructuring paragraphs if necessary to make it sound natural and well-written.\<newline>'' @
     ''The text is already in English, so no translation is needed.\<newline>''\<close>

definition defaultEnglishFixOnlyPrompt_2 :: string where
  \<open>defaultEnglishFixOnlyPrompt_2 =
     ''\<newline>'' @
     ''Do NOT include any preambles, apologies, or explanations in your response. Only return the corrected and refined text.\<newline>'' @
     ''\<newline>'' @
     ''Original text to process:\<newline>'' @
     ''---\<newline>''\<close>

definition defaultEnglishFixOnlyPrompt_3 :: string where
  \<open>defaultEnglishFixOnlyPrompt_3 =
     ''\<newline>'' @
     ''---''\<close>

definition defaultAnswerQuestionPrompt_1 :: string where
  \<open>defaultAnswerQuestionPrompt_1 =
     ''You are an intelligent and helpful assistant.\<newline>'' @
     ''The user will provide a question. Your task is to provide a clear, concise, and accurate answer to that question.\<newline>'' @
     ''Consider the following when formulating your response:\<newline>'' @
     ''1. Directly address the question asked.\<newline>'' @
     ''2. Provide the answer in the ''\<close>

definition defaultAnswerQuestionPrompt_2 :: string where
  \<open>defaultAnswerQuestionPrompt_2 =
     '' language.\<newline>'' @
     ''3. Adjust the tone of your answer according to the specified mood: ''\<close>

definition defaultAnswerQuestionPrompt_3 :: string where
  \<open>defaultAnswerQuestionPrompt_3 =
     ''\<newline>'' @
     ''   If no specific mood instruction is given for "neutral", answer in a helpful and informative default tone.\<newline>'' @
     ''Do NOT include any preambles like "Here is the answer to your question:" or "The answer is:". Just provide the answer directly.\<newline>'' @
     ''\<newline>'' @
     ''Question to answer:\<newline>'' @
     ''---\<newline>''\<close>

definition defaultAnswerQuestionPrompt_4 :: string where
  \<open>defaultAnswerQuestionPrompt_4 =
     ''\<newline>'' @
     ''---''\<close>

section \<open>Facts about strings, white space, placeholders and replacement\<close>

lemma HasPrefix_iff: "HasPrefix s p \<longleftrightarrow> (\<exists>b. s = p @ b)"
  by (induction s p rule: HasPrefix.induct) auto

lemma Contains_iff: "Contains s t \<longleftrightarrow> (\<exists>a b. s = a @ t @ b)"
proof (induction s)
  case Nil
  then show ?case by auto
next
  case (Cons c cs)
  show ?case
  proof
    assume "Contains (c # cs) t"
    then consider "HasPrefix (c # cs) t" | "Contains cs t" by auto
    then show "\<exists>a b. c # cs = a @ t @ b"
    proof cases
      case 1
      then obtain b where "c # cs = t @ b" by (auto simp: HasPrefix_iff)
      then have "c # cs = [] @ t @ b" by simp
      then show ?thesis by blast
    next
      case 2
      with Cons obtain a b where "cs = a @ t @ b" by auto
      then have "c # cs = (c # a) @ t @ b" by simp
      then show ?thesis by blast
    qed
  next
    assume "\<exists>a b. c # cs = a @ t @ b"
    then obtain a b where ab: "c # cs = a @ t @ b" by auto
    show "Contains (c # cs) t"
    proof (cases a)
      case Nil
      with ab have "HasPrefix (c # cs) t" by (auto simp: HasPrefix_iff)
      then show ?thesis by simp
    next
      case (Cons x a')
      with ab have "cs = a' @ t @ b" by simp
      with Cons.IH have "Contains cs t" by auto
      then show ?thesis by simp
    qed
  qed
qed

lemma Contains_trans: "Contains s t \<Longrightarrow> Contains t u \<Longrightarrow> Contains s u"
proof -
  assume "Contains s t" "Contains t u"
  then obtain a b a' b' where "s = a @ t @ b" "t = a' @ u @ b'" by (auto simp: Contains_iff)
  then have "s = (a @ a') @ u @ (b' @ b)" by simp
  then show ?thesis unfolding Contains_iff by blast
qed

lemma HasPrefix_append_mono: "HasPrefix a q \<Longrightarrow> HasPrefix (a @ x) q"
  by (auto simp: HasPrefix_iff)

lemma HasPrefix_before_mark: "z \<notin> set q \<Longrightarrow> HasPrefix (a @ z # r) q \<Longrightarrow> HasPrefix a q"
  by (induction a q rule: HasPrefix.induct) auto

lemma ReplaceAll_match:
  "old \<noteq> [] \<Longrightarrow> HasPrefix (c # cs) old
     \<Longrightarrow> ReplaceAll (c # cs) old new = new @ ReplaceAll (drop (length old) (c # cs)) old new"
  by simp

lemma ReplaceAll_nomatch:
  "old \<noteq> [] \<Longrightarrow> \<not> HasPrefix (c # cs) old
     \<Longrightarrow> ReplaceAll (c # cs) old new = c # ReplaceAll cs old new"
  by simp

lemma ReplaceAll_split:
  assumes "z \<notin> set q"
  shows "ReplaceAll (a @ z # r) (z # q) m = ReplaceAll a (z # q) m @ ReplaceAll (z # r) (z # q) m"
proof (induction "length a" arbitrary: a rule: less_induct)
  case less
  let ?P = "z # q"
  show ?case
  proof (cases a)
    case Nil
    then show ?thesis by simp
  next
    case (Cons c a')
    have eq: "HasPrefix (c # (a' @ z # r)) ?P = HasPrefix (c # a') ?P"
      using assms HasPrefix_before_mark[of z q a' r] HasPrefix_append_mono[of a' q "z # r"] by auto
    show ?thesis
    proof (cases "HasPrefix (c # a') ?P")
      case True
      then have len: "length ?P \<le> length (c # a')" by (rule HasPrefix_length)
      have d: "drop (length ?P) (c # (a' @ z # r)) = drop (length ?P) (c # a') @ z # r"
        using len by simp
      have "length (drop (length ?P) (c # a')) < length a" using Cons by simp
      from less[OF this]
      have ih: "ReplaceAll (drop (length ?P) (c # a') @ z # r) ?P m =
                ReplaceAll (drop (length ?P) (c # a')) ?P m @ ReplaceAll (z # r) ?P m" .
      have "ReplaceAll (c # (a' @ z # r)) ?P m =
            m @ ReplaceAll (drop (length ?P) (c # (a' @ z # r))) ?P m"
        using True eq by (intro ReplaceAll_match) simp_all
      also have "\<dots> = m @ ReplaceAll (drop (length ?P) (c # a')) ?P m @ ReplaceAll (z # r) ?P m"
        unfolding d ih ..
      also have "\<dots> = ReplaceAll (c # a') ?P m @ ReplaceAll (z # r) ?P m"
        using ReplaceAll_match[of ?P c a' m] True by simp
      finally show ?thesis using Cons by simp
    next
      case False
      have "length a' < length a" using Cons by simp
      from less[OF this]
      have ih: "ReplaceAll (a' @ z # r) ?P m = ReplaceAll a' ?P m @ ReplaceAll (z # r) ?P m" .
      have "ReplaceAll (c # (a' @ z # r)) ?P m = c # ReplaceAll (a' @ z # r) ?P m"
        using False eq by (intro ReplaceAll_nomatch) simp_all
      also have "\<dots> = (c # ReplaceAll a' ?P m) @ ReplaceAll (z # r) ?P m"
        unfolding ih by simp
      also have "\<dots> = ReplaceAll (c # a') ?P m @ ReplaceAll (z # r) ?P m"
        using ReplaceAll_nomatch[of ?P c a' m] False by simp
      finally show ?thesis using Cons by simp
    qed
  qed
qed

lemma HasPrefix_append_cases:
  "HasPrefix (u @ v) q \<Longrightarrow> HasPrefix u q \<or> (\<exists>q2. q = u @ q2)"
  by (induction u q rule: HasPrefix.induct) auto

lemma HasPrefix_set: "HasPrefix u q \<Longrightarrow> set q \<subseteq> set u"
  by (induction u q rule: HasPrefix.induct) auto

lemma HasPrefix_ReplaceAll:
  assumes "old \<noteq> []"
  shows "q \<noteq> [] \<Longrightarrow> last q \<notin> set new \<Longrightarrow> \<not> set new \<subseteq> set q
     \<Longrightarrow> HasPrefix (ReplaceAll cs old new) q \<Longrightarrow> HasPrefix cs q"
proof (induction cs arbitrary: q)
  case Nil
  then show ?case using assms by (cases q) auto
next
  case (Cons d ds)
  show ?case
  proof (cases "HasPrefix (d # ds) old")
    case True
    then have "HasPrefix (new @ ReplaceAll (drop (length old) (d # ds)) old new) q"
      using Cons.prems(4) assms by simp
    from HasPrefix_append_cases[OF this] have False
    proof
      assume "HasPrefix new q"
      then have "set q \<subseteq> set new" by (rule HasPrefix_set)
      with Cons.prems(1,2) show False using last_in_set by blast
    next
      assume "\<exists>q2. q = new @ q2"
      with Cons.prems(3) show False by auto
    qed
    then show ?thesis ..
  next
    case False
    then have h: "HasPrefix (d # ReplaceAll ds old new) q" using Cons.prems(4) assms by simp
    obtain x q' where q: "q = x # q'" using Cons.prems(1) by (cases q) auto
    show ?thesis
    proof (cases "q' = []")
      case True
      with h q show ?thesis by simp
    next
      case False
      have "last q' \<notin> set new" using Cons.prems(2) q False by simp
      moreover have "\<not> set new \<subseteq> set q'" using Cons.prems(3) q by auto
      moreover have "HasPrefix (ReplaceAll ds old new) q'" using h q by simp
      ultimately have "HasPrefix ds q'" using Cons.IH[OF False] by blast
      with h q show ?thesis by simp
    qed
  qed
qed

lemma Contains_skip: "z \<notin> set u \<Longrightarrow> Contains (u @ v) (z # q) = Contains v (z # q)"
  by (induction u) auto

lemma ReplaceAll_no_token:
  assumes "q \<noteq> []" "z \<notin> set new" "last q \<notin> set new" "\<not> set new \<subseteq> set q"
  shows "\<not> Contains (ReplaceAll s (z # q) new) (z # q)"
proof (induction "length s" arbitrary: s rule: less_induct)
  case less
  let ?P = "z # q"
  show ?case
  proof (cases s)
    case Nil
    then show ?thesis by simp
  next
    case (Cons c cs)
    show ?thesis
    proof (cases "HasPrefix (c # cs) ?P")
      case True
      have "length (drop (length ?P) (c # cs)) < length s" using Cons by simp
      from less[OF this]
      have ih: "\<not> Contains (ReplaceAll (drop (length ?P) (c # cs)) ?P new) ?P" .
      have "ReplaceAll (c # cs) ?P new = new @ ReplaceAll (drop (length ?P) (c # cs)) ?P new"
        using True by (intro ReplaceAll_match) simp_all
      then show ?thesis using ih Contains_skip[OF assms(2)] Cons by simp
    next
      case False
      have "length cs < length s" using Cons by simp
      from less[OF this] have ih: "\<not> Contains (ReplaceAll cs ?P new) ?P" .
      have nm: "ReplaceAll (c # cs) ?P new = c # ReplaceAll cs ?P new"
        using False by (intro ReplaceAll_nomatch) simp_all
      have "\<not> HasPrefix (c # ReplaceAll cs ?P new) ?P"
      proof
        assume a: "HasPrefix (c # ReplaceAll cs ?P new) ?P"
        then have cz: "c = z" and "HasPrefix (ReplaceAll cs ?P new) q" by auto
        then have "HasPrefix cs q"
          using HasPrefix_ReplaceAll[of ?P q new cs] assms by simp
        with cz False show False by simp
      qed
      with ih show ?thesis unfolding Cons nm by simp
    qed
  qed
qed

lemma defaultPrompts_nonempty:
  "Default defaultPromptsConfig \<noteq> []" "EnglishFixOnly defaultPromptsConfig \<noteq> []"
  "ExplainText defaultPromptsConfig \<noteq> []" "AnswerQuestion defaultPromptsConfig \<noteq> []"
  by (simp_all add: defaultPromptsConfig_def defaultPrompt_def
     defaultEnglishFixOnlyPrompt_def defaultExplainTextPrompt_def defaultAnswerQuestionPrompt_def)

lemma initConfig_fully_populated_aux:
  "let c = fst (initConfig verbose decoded) in
     DefaultLanguage c \<noteq> [] \<and> Editor c \<noteq> [] \<and> GeminiModel c \<noteq> [] \<and> DefaultMood c \<noteq> [] \<and>
     Default (Prompts c) \<noteq> [] \<and> EnglishFixOnly (Prompts c) \<noteq> [] \<and>
     ExplainText (Prompts c) \<noteq> [] \<and> AnswerQuestion (Prompts c) \<noteq> [] \<and>
     Moods c \<noteq> []"
  by (simp add: initConfig_def Let_def defaultPrompts_nonempty getDefaultMoods_def)

lemma builtinConfig_fields:
  "DefaultLanguage builtinConfig = ''Norwegian''" "Editor builtinConfig = ''nvim''"
  "GeminiModel builtinConfig = ''gemini-1.5-flash-latest''" "DefaultMood builtinConfig = ''neutral''"
  "Prompts builtinConfig = defaultPromptsConfig" "Moods builtinConfig = getDefaultMoods"
  by (simp_all add: builtinConfig_def initConfig_def zeroConfig_def Let_def defaultPromptsConfig_def)

lemma whitespaceEncodings_length:
  "w \<in> set whitespaceEncodings \<Longrightarrow>
     w \<noteq> [] \<and> length w = (if isASCII (hd w) then 1 else if hd w = CHR 0xC2 then 2 else 3)"
  unfolding whitespaceEncodings_def by (auto simp: isASCII_def)

lemma whitespaceEncodings_prefix_free:
  assumes "w \<in> set whitespaceEncodings" "w' \<in> set whitespaceEncodings" "HasPrefix (w @ rest) w'"
  shows "w' = w"
proof -
  from assms(3) obtain b where eq: "w @ rest = w' @ b" by (auto simp: HasPrefix_iff)
  have ne: "w \<noteq> []" "w' \<noteq> []"
    using assms(1,2) whitespaceEncodings_length by blast+
  with eq have "hd w = hd w'" by (cases w; cases w') auto
  then have "length w = length w'"
    using whitespaceEncodings_length[OF assms(1)] whitespaceEncodings_length[OF assms(2)] by simp
  with eq show ?thesis by simp
qed

lemma leadingSpace_encoding:
  assumes "w \<in> set whitespaceEncodings"
  shows "leadingSpace (w @ rest) = Some w"
proof -
  have "HasPrefix (w @ rest) w" by (simp add: HasPrefix_iff)
  with assms have "leadingSpace (w @ rest) \<noteq> None"
    by (auto simp: leadingSpace_def find_None_iff)
  then obtain w' where w': "leadingSpace (w @ rest) = Some w'" by auto
  then have "w' \<in> set whitespaceEncodings" "HasPrefix (w @ rest) w'"
    by (auto simp: leadingSpace_def find_Some_iff)
  with assms have "w' = w" by (intro whitespaceEncodings_prefix_free)
  with w' show ?thesis by simp
qed

lemma TrimLeft_whitespace:
  "set ws \<subseteq> set whitespaceEncodings \<Longrightarrow> TrimLeft (concat ws) = []"
proof (induction ws)
  case Nil
  have "leadingSpace [] = None"
    by (simp add: leadingSpace_def whitespaceEncodings_def)
  then show ?case by (subst TrimLeft.simps) simp
next
  case (Cons w ws)
  then have "leadingSpace (w @ concat ws) = Some w" by (simp add: leadingSpace_encoding)
  then have "TrimLeft (concat (w # ws)) = TrimLeft (concat ws)"
    by (subst TrimLeft.simps) simp
  with Cons show ?case by simp
qed

lemma TrimRight_Nil: "TrimRight [] = []"
proof -
  have "trailingSpace [] = None"
    by (simp add: trailingSpace_def whitespaceEncodings_def HasSuffix_def)
  then show ?thesis by (subst TrimRight.simps) simp
qed

lemma TrimSpace_whitespace:
  "set ws \<subseteq> set whitespaceEncodings \<Longrightarrow> TrimSpace (concat ws) = []"
  by (simp add: TrimSpace_def TrimLeft_whitespace TrimRight_Nil)

lemma fix_chosen_nonempty:
  "Default (Prompts cfg) \<noteq> [] \<Longrightarrow> EnglishFixOnly (Prompts cfg) \<noteq> []
     \<Longrightarrow> fst (fix_chosenPromptTemplate cfg f) \<noteq> []"
  by (simp add: fix_chosenPromptTemplate_def Let_def)

lemma ReplaceAll_pass: "z \<notin> set a \<Longrightarrow> ReplaceAll (a @ b) (z # q) m = a @ ReplaceAll b (z # q) m"
  by (induction a) auto

lemma ReplaceAll_pass_end: "z \<notin> set a \<Longrightarrow> ReplaceAll a (z # q) m = a"
  using ReplaceAll_pass[of z a "[]" q m] by simp

lemma ReplaceAll_tokens:
  "ReplaceAll (''{MOOD_INSTRUCTION}'' @ b) ''{MOOD_INSTRUCTION}'' m = m @ ReplaceAll b ''{MOOD_INSTRUCTION}'' m"
  "ReplaceAll (''{TEXT}'' @ b) ''{MOOD_INSTRUCTION}'' m = ''{TEXT}'' @ ReplaceAll b ''{MOOD_INSTRUCTION}'' m"
  "ReplaceAll (''{LANGUAGE}'' @ b) ''{MOOD_INSTRUCTION}'' m = ''{LANGUAGE}'' @ ReplaceAll b ''{MOOD_INSTRUCTION}'' m"
  "ReplaceAll (''{TEXT}'' @ b) ''{TEXT}'' m = m @ ReplaceAll b ''{TEXT}'' m"
  "ReplaceAll (''{LANGUAGE}'' @ b) ''{TEXT}'' m = ''{LANGUAGE}'' @ ReplaceAll b ''{TEXT}'' m"
  "ReplaceAll (''{LANGUAGE}'' @ b) ''{LANGUAGE}'' m = m @ ReplaceAll b ''{LANGUAGE}'' m"
  by simp_all

lemma Contains_earlier: "Contains a t \<Longrightarrow> Contains (a @ b) t"
  unfolding Contains_iff
proof -
  assume "\<exists>x y. a = x @ t @ y"
  then obtain x y where "a = x @ t @ y" by auto
  then have "a @ b = x @ t @ (y @ b)" by simp
  then show "\<exists>x y. a @ b = x @ t @ y" by blast
qed

lemma no_mark_no_token: "z \<notin> set s \<Longrightarrow> \<not> Contains s (z # q)"
  by (induction s) auto

lemma defaultPrompts_tokens:
  "Contains (Default defaultPromptsConfig) ''{TEXT}''"
  "Contains (EnglishFixOnly defaultPromptsConfig) ''{TEXT}''"
  "Contains (ExplainText defaultPromptsConfig) ''{TEXT}''"
  "Contains (AnswerQuestion defaultPromptsConfig) ''{TEXT}''"
  "Contains (Default defaultPromptsConfig) ''{MOOD_INSTRUCTION}''"
  "Contains (EnglishFixOnly defaultPromptsConfig) ''{MOOD_INSTRUCTION}''"
  by (simp_all add: defaultPromptsConfig_def defaultPrompt_def
     defaultEnglishFixOnlyPrompt_def defaultExplainTextPrompt_def defaultAnswerQuestionPrompt_def)

lemma defaultPrompt_segments:
  "defaultPrompt = defaultPrompt_1 @ ''{LANGUAGE}'' @ defaultPrompt_2 @ ''{MOOD_INSTRUCTION}'' @ defaultPrompt_3 @ ''{TEXT}'' @ defaultPrompt_4"
  by (simp add: defaultPrompt_def defaultPrompt_1_def defaultPrompt_2_def defaultPrompt_3_def defaultPrompt_4_def)

lemma defaultEnglishFixOnlyPrompt_segments:
  "defaultEnglishFixOnlyPrompt = defaultEnglishFixOnlyPrompt_1 @ ''{MOOD_INSTRUCTION}'' @ defaultEnglishFixOnlyPrompt_2 @ ''{TEXT}'' @ defaultEnglishFixOnlyPrompt_3"
  by (simp add: defaultEnglishFixOnlyPrompt_def defaultEnglishFixOnlyPrompt_1_def defaultEnglishFixOnlyPrompt_2_def defaultEnglishFixOnlyPrompt_3_def)

lemma defaultAnswerQuestionPrompt_segments:
  "defaultAnswerQuestionPrompt = defaultAnswerQuestionPrompt_1 @ ''{LANGUAGE}'' @ defaultAnswerQuestionPrompt_2 @ ''{MOOD_INSTRUCTION}'' @ defaultAnswerQuestionPrompt_3 @ ''{TEXT}'' @ defaultAnswerQuestionPrompt_4"
  by (simp add: defaultAnswerQuestionPrompt_def defaultAnswerQuestionPrompt_1_def defaultAnswerQuestionPrompt_2_def defaultAnswerQuestionPrompt_3_def defaultAnswerQuestionPrompt_4_def)

lemma segments_no_brace:
  "CHR ''{'' \<notin> set defaultPrompt_1"
  "CHR ''{'' \<notin> set defaultPrompt_2"
  "CHR ''{'' \<notin> set defaultPrompt_3"
  "CHR ''{'' \<notin> set defaultPrompt_4"
  "CHR ''{'' \<notin> set defaultEnglishFixOnlyPrompt_1"
  "CHR ''{'' \<notin> set defaultEnglishFixOnlyPrompt_2"
  "CHR ''{'' \<notin> set defaultEnglishFixOnlyPrompt_3"
  "CHR ''{'' \<notin> set defaultAnswerQuestionPrompt_1"
  "CHR ''{'' \<notin> set defaultAnswerQuestionPrompt_2"
  "CHR ''{'' \<notin> set defaultAnswerQuestionPrompt_3"
  "CHR ''{'' \<notin> set defaultAnswerQuestionPrompt_4"
  by (simp_all add: defaultPrompt_1_def defaultPrompt_2_def defaultPrompt_3_def defaultPrompt_4_def defaultEnglishFixOnlyPrompt_1_def defaultEnglishFixOnlyPrompt_2_def defaultEnglishFixOnlyPrompt_3_def defaultAnswerQuestionPrompt_1_def defaultAnswerQuestionPrompt_2_def defaultAnswerQuestionPrompt_3_def defaultAnswerQuestionPrompt_4_def)

lemmas replace_steps =
  ReplaceAll_pass ReplaceAll_pass_end ReplaceAll_tokens segments_no_brace simp_thms append_assoc

lemma assemble_defaultPrompt:
  "ReplaceAll defaultPrompt ''{MOOD_INSTRUCTION}'' m =
     defaultPrompt_1 @ ''{LANGUAGE}'' @ defaultPrompt_2 @ m @ defaultPrompt_3 @ ''{TEXT}'' @ defaultPrompt_4"
  unfolding defaultPrompt_segments by (simp only: replace_steps)

lemma assemble_defaultEnglishFixOnlyPrompt:
  "ReplaceAll defaultEnglishFixOnlyPrompt ''{MOOD_INSTRUCTION}'' m =
     defaultEnglishFixOnlyPrompt_1 @ m @ defaultEnglishFixOnlyPrompt_2 @ ''{TEXT}'' @ defaultEnglishFixOnlyPrompt_3"
  unfolding defaultEnglishFixOnlyPrompt_segments by (simp only: replace_steps)

lemma assemble_defaultAnswerQuestionPrompt:
  "ReplaceAll defaultAnswerQuestionPrompt ''{MOOD_INSTRUCTION}'' m =
     defaultAnswerQuestionPrompt_1 @ ''{LANGUAGE}'' @ defaultAnswerQuestionPrompt_2 @ m @
     defaultAnswerQuestionPrompt_3 @ ''{TEXT}'' @ defaultAnswerQuestionPrompt_4"
  unfolding defaultAnswerQuestionPrompt_segments by (simp only: replace_steps)

lemma final_defaultPrompt:
  assumes "CHR ''{'' \<notin> set m" "CHR ''{'' \<notin> set textToProcess"
  shows "ProcessText_finalPrompt textToProcess (ReplaceAll defaultPrompt ''{MOOD_INSTRUCTION}'' m) targetLanguage =
     defaultPrompt_1 @ targetLanguage @ defaultPrompt_2 @ m @ defaultPrompt_3 @ textToProcess @ defaultPrompt_4"
  unfolding assemble_defaultPrompt ProcessText_finalPrompt_def Let_def
  using assms by (simp only: replace_steps)

lemma final_defaultEnglishFixOnlyPrompt:
  assumes "CHR ''{'' \<notin> set m" "CHR ''{'' \<notin> set textToProcess"
  shows "ProcessText_finalPrompt textToProcess (ReplaceAll defaultEnglishFixOnlyPrompt ''{MOOD_INSTRUCTION}'' m)
           targetLanguage =
     defaultEnglishFixOnlyPrompt_1 @ m @ defaultEnglishFixOnlyPrompt_2 @ textToProcess @ defaultEnglishFixOnlyPrompt_3"
  unfolding assemble_defaultEnglishFixOnlyPrompt ProcessText_finalPrompt_def Let_def
  using assms by (simp only: replace_steps)

lemma ReplaceAll_tokens_more:
  "ReplaceAll (''{MOOD_INSTRUCTION}'' @ b) ''{TEXT}'' m = ''{MOOD_INSTRUCTION}'' @ ReplaceAll b ''{TEXT}'' m"
  "ReplaceAll (''{MOOD_INSTRUCTION}'' @ b) ''{LANGUAGE}'' m = ''{MOOD_INSTRUCTION}'' @ ReplaceAll b ''{LANGUAGE}'' m"
  "ReplaceAll (''{TEXT}'' @ b) ''{LANGUAGE}'' m = ''{TEXT}'' @ ReplaceAll b ''{LANGUAGE}'' m"
  by simp_all

lemma Contains_mid: "Contains (a @ t @ b) t"
  unfolding Contains_iff by blast

lemma professional_mood:
  "map_of getDefaultMoods ''professional'' =
     Some \<lparr>Description = ''Refine text to be formal, objective, and suitable for business or academic contexts.'',
           Instruction = professionalInstruction\<rparr>"
  by (simp add: getDefaultMoods_def professionalInstruction_def)

lemma scenario_no_brace:
  "CHR ''{'' \<notin> set professionalInstruction" "CHR ''{'' \<notin> set ''helo wrold''"
  "CHR ''{'' \<notin> set ''English''"
  by (simp_all add: professionalInstruction_def)

lemma English_in_template: "Contains defaultEnglishFixOnlyPrompt_1 ''English''"
  by (simp add: defaultEnglishFixOnlyPrompt_1_def)

lemma scenario_default:
  "Contains (ProcessText_finalPrompt ''helo wrold''
               (ReplaceAll defaultPrompt ''{MOOD_INSTRUCTION}'' professionalInstruction) ''English'') ''helo wrold''"
  "Contains (ProcessText_finalPrompt ''helo wrold''
               (ReplaceAll defaultPrompt ''{MOOD_INSTRUCTION}'' professionalInstruction) ''English'') ''English''"
  "Contains (ProcessText_finalPrompt ''helo wrold''
               (ReplaceAll defaultPrompt ''{MOOD_INSTRUCTION}'' professionalInstruction) ''English'')
            professionalInstruction"
  "\<not> Contains (ProcessText_finalPrompt ''helo wrold''
               (ReplaceAll defaultPrompt ''{MOOD_INSTRUCTION}'' professionalInstruction) ''English'')
              ''{MOOD_INSTRUCTION}''"
proof -
  let ?final = "ProcessText_finalPrompt ''helo wrold''
               (ReplaceAll defaultPrompt ''{MOOD_INSTRUCTION}'' professionalInstruction) ''English''"
  have eq: "?final = defaultPrompt_1 @ ''English'' @ defaultPrompt_2 @ professionalInstruction @
                     defaultPrompt_3 @ ''helo wrold'' @ defaultPrompt_4"
    by (rule final_defaultPrompt[OF scenario_no_brace(1,2)])
  show "Contains ?final ''helo wrold''"
    unfolding eq
    using Contains_mid[of "defaultPrompt_1 @ ''English'' @ defaultPrompt_2 @ professionalInstruction @ defaultPrompt_3"
            "''helo wrold''" defaultPrompt_4]
    by (simp only: append_assoc)
  show "Contains ?final ''English''"
    unfolding eq by (rule Contains_mid)
  show "Contains ?final professionalInstruction"
    unfolding eq
    using Contains_mid[of "defaultPrompt_1 @ ''English'' @ defaultPrompt_2" professionalInstruction
            "defaultPrompt_3 @ ''helo wrold'' @ defaultPrompt_4"]
    by (simp only: append_assoc)
  have "CHR ''{'' \<notin> set ?final"
    unfolding eq using scenario_no_brace segments_no_brace by (simp only: set_append Un_iff simp_thms)
  then show "\<not> Contains ?final ''{MOOD_INSTRUCTION}''" by (rule no_mark_no_token)
qed

lemma scenario_english:
  "Contains (ProcessText_finalPrompt ''helo wrold''
               (ReplaceAll defaultEnglishFixOnlyPrompt ''{MOOD_INSTRUCTION}'' professionalInstruction) ''English'')
            ''helo wrold''"
  "Contains (ProcessText_finalPrompt ''helo wrold''
               (ReplaceAll defaultEnglishFixOnlyPrompt ''{MOOD_INSTRUCTION}'' professionalInstruction) ''English'')
            ''English''"
  "Contains (ProcessText_finalPrompt ''helo wrold''
               (ReplaceAll defaultEnglishFixOnlyPrompt ''{MOOD_INSTRUCTION}'' professionalInstruction) ''English'')
            professionalInstruction"
  "\<not> Contains (ProcessText_finalPrompt ''helo wrold''
               (ReplaceAll defaultEnglishFixOnlyPrompt ''{MOOD_INSTRUCTION}'' professionalInstruction) ''English'')
              ''{MOOD_INSTRUCTION}''"
proof -
  let ?final = "ProcessText_finalPrompt ''helo wrold''
               (ReplaceAll defaultEnglishFixOnlyPrompt ''{MOOD_INSTRUCTION}'' professionalInstruction) ''English''"
  have eq: "?final = defaultEnglishFixOnlyPrompt_1 @ professionalInstruction @
                     defaultEnglishFixOnlyPrompt_2 @ ''helo wrold'' @ defaultEnglishFixOnlyPrompt_3"
    by (rule final_defaultEnglishFixOnlyPrompt[OF scenario_no_brace(1,2)])
  show "Contains ?final ''helo wrold''"
    unfolding eq
    using Contains_mid[of "defaultEnglishFixOnlyPrompt_1 @ professionalInstruction @ defaultEnglishFixOnlyPrompt_2"
            "''helo wrold''" defaultEnglishFixOnlyPrompt_3]
    by (simp only: append_assoc)
  show "Contains ?final ''English''"
    unfolding eq by (rule Contains_earlier[OF English_in_template])
  show "Contains ?final professionalInstruction"
    unfolding eq by (rule Contains_mid)
  have "CHR ''{'' \<notin> set ?final"
    unfolding eq using scenario_no_brace segments_no_brace by (simp only: set_append Un_iff simp_thms)
  then show "\<not> Contains ?final ''{MOOD_INSTRUCTION}''" by (rule no_mark_no_token)
qed

lemma scenario_template:
  assumes "language f = ''English''" "Prompts cfg = defaultPromptsConfig"
  shows "fst (snd (fix_chosenPromptTemplate cfg f)) = ''English'' \<and>
         (fst (fix_chosenPromptTemplate cfg f) = defaultPrompt \<or>
          fst (fix_chosenPromptTemplate cfg f) = defaultEnglishFixOnlyPrompt)"
  using assms
  by (simp add: fix_chosenPromptTemplate_def Let_def defaultPromptsConfig_def
      lowerASCII_def isUpperASCII_def isASCII_def char_of_def bit_Suc_0_iff)

lemma scenario_mood:
  assumes "moodChanged f" "moodKey f = ''professional''" "Moods cfg = getDefaultMoods"
  shows "fst (snd (fix_moodInstructionText cfg f)) = professionalInstruction"
  using assms by (simp add: fix_moodInstructionText_def professional_mood)

lemma fix_finalPrompt_eq:
  "fix_finalPrompt cfg f =
     ReplaceAll (fst (fix_chosenPromptTemplate cfg f)) ''{MOOD_INSTRUCTION}''
       (fst (snd (fix_moodInstructionText cfg f)))"
  by (simp add: fix_finalPrompt_def split: prod.splits)

lemma fixCmd_Run_generates:
  assumes "getGeminiAPIKey w = Inr apiKey" "apiKey \<noteq> []"
    and "fst (fix_chosenPromptTemplate cfg f) \<noteq> []"
    and "getTextFromEditor w (Editor cfg) = Inr inputText" "TrimSpace inputText \<noteq> []"
    and "newGeminiClient w apiKey (GeminiModel cfg) = None"
  shows "GenerateContent (ProcessText_finalPrompt inputText (fix_finalPrompt cfg f)
                            (fst (snd (fix_chosenPromptTemplate cfg f))))
           \<in> set (fst (fixCmd_Run w verbose cfg f))"
  using assms
  by (auto simp: fixCmd_Run_def fix_submit_def ProcessText_def Let_def
      split: prod.splits sum.splits option.splits)

lemma TrimSpace_helo: "TrimSpace ''helo wrold'' = ''helo wrold''"
  by (simp add: TrimSpace_def TrimLeft.simps TrimRight.simps leadingSpace_def trailingSpace_def
      whitespaceEncodings_def HasSuffix_def)

lemma ReplaceAll_same: "old \<noteq> [] \<Longrightarrow> ReplaceAll s old old = s"
proof (induction "length s" arbitrary: s rule: less_induct)
  case less
  show ?case
  proof (cases s)
    case Nil
    with less.prems show ?thesis by simp
  next
    case (Cons c cs)
    show ?thesis
    proof (cases "HasPrefix (c # cs) old")
      case True
      then obtain b where b: "c # cs = old @ b" by (auto simp: HasPrefix_iff)
      have "length (drop (length old) (c # cs)) < length s" using Cons less.prems by (cases old) auto
      from less.hyps[OF this less.prems]
      have "ReplaceAll (drop (length old) (c # cs)) old old = drop (length old) (c # cs)" .
      then have "ReplaceAll (c # cs) old old = old @ drop (length old) (c # cs)"
        using ReplaceAll_match[OF less.prems True, of old] by simp
      also have "\<dots> = c # cs" unfolding b by simp
      finally show ?thesis using Cons by simp
    next
      case False
      have "length cs < length s" using Cons by simp
      from less.hyps[OF this less.prems] show ?thesis
        using ReplaceAll_nomatch[OF less.prems False, of old] Cons by simp
    qed
  qed
qed

lemma ReplaceAll_at_token:
  "ReplaceAll (a @ ''{MOOD_INSTRUCTION}'' @ b) ''{MOOD_INSTRUCTION}'' m =
     ReplaceAll a ''{MOOD_INSTRUCTION}'' m @ m @ ReplaceAll b ''{MOOD_INSTRUCTION}'' m"
  "ReplaceAll (a @ ''{TEXT}'' @ b) ''{MOOD_INSTRUCTION}'' m =
     ReplaceAll a ''{MOOD_INSTRUCTION}'' m @ ''{TEXT}'' @ ReplaceAll b ''{MOOD_INSTRUCTION}'' m"
  "ReplaceAll (a @ ''{LANGUAGE}'' @ b) ''{MOOD_INSTRUCTION}'' m =
     ReplaceAll a ''{MOOD_INSTRUCTION}'' m @ ''{LANGUAGE}'' @ ReplaceAll b ''{MOOD_INSTRUCTION}'' m"
  "ReplaceAll (a @ ''{TEXT}'' @ b) ''{TEXT}'' m = ReplaceAll a ''{TEXT}'' m @ m @ ReplaceAll b ''{TEXT}'' m"
proof -
  have m: "CHR ''{'' \<notin> set ''MOOD_INSTRUCTION}''" and t: "CHR ''{'' \<notin> set ''TEXT}''" by simp_all
  show "ReplaceAll (a @ ''{MOOD_INSTRUCTION}'' @ b) ''{MOOD_INSTRUCTION}'' m =
     ReplaceAll a ''{MOOD_INSTRUCTION}'' m @ m @ ReplaceAll b ''{MOOD_INSTRUCTION}'' m"
    using ReplaceAll_split[OF m, of a "''MOOD_INSTRUCTION}'' @ b" m] ReplaceAll_tokens(1)[of b m]
    by (simp only: append_Cons append_Nil)
  show "ReplaceAll (a @ ''{TEXT}'' @ b) ''{MOOD_INSTRUCTION}'' m =
     ReplaceAll a ''{MOOD_INSTRUCTION}'' m @ ''{TEXT}'' @ ReplaceAll b ''{MOOD_INSTRUCTION}'' m"
    using ReplaceAll_split[OF m, of a "''TEXT}'' @ b" m] ReplaceAll_tokens(2)[of b m]
    by (simp only: append_Cons append_Nil)
  show "ReplaceAll (a @ ''{LANGUAGE}'' @ b) ''{MOOD_INSTRUCTION}'' m =
     ReplaceAll a ''{MOOD_INSTRUCTION}'' m @ ''{LANGUAGE}'' @ ReplaceAll b ''{MOOD_INSTRUCTION}'' m"
    using ReplaceAll_split[OF m, of a "''LANGUAGE}'' @ b" m] ReplaceAll_tokens(3)[of b m]
    by (simp only: append_Cons append_Nil)
  show "ReplaceAll (a @ ''{TEXT}'' @ b) ''{TEXT}'' m = ReplaceAll a ''{TEXT}'' m @ m @ ReplaceAll b ''{TEXT}'' m"
    using ReplaceAll_split[OF t, of a "''TEXT}'' @ b" m] ReplaceAll_tokens(4)[of b m]
    by (simp only: append_Cons append_Nil)
qed

lemma fix_chosenPromptTemplate_mood:
  "fix_chosenPromptTemplate cfg (f\<lparr>moodKey := k, moodChanged := c\<rparr>) = fix_chosenPromptTemplate cfg f"
  by (simp add: fix_chosenPromptTemplate_def Let_def)

section \<open>Configuration resolution (C1)\<close>

text \<open>
  C1. Whatever \<open>viper\<close> decoded (nothing at all for a missing, empty or unreadable file,
  anything for a file and an environment that were read), the configuration that
  \<open>initConfig\<close> leaves has a non-empty default language, editor, model name and default
  mood, four non-empty prompt templates and a non-empty mood map.
\<close>

theorem initConfig_fully_populated:
  "let c = fst (initConfig verbose decoded) in
     DefaultLanguage c \<noteq> [] \<and> Editor c \<noteq> [] \<and> GeminiModel c \<noteq> [] \<and> DefaultMood c \<noteq> [] \<and>
     Default (Prompts c) \<noteq> [] \<and> EnglishFixOnly (Prompts c) \<noteq> [] \<and>
     ExplainText (Prompts c) \<noteq> [] \<and> AnswerQuestion (Prompts c) \<noteq> [] \<and>
     Moods c \<noteq> []"
  by (rule initConfig_fully_populated_aux)

theorem initConfig_fully_populated_witness:
  "DefaultLanguage (fst (initConfig False zeroConfig)) = ''Norwegian'' \<and>
   Editor (fst (initConfig False zeroConfig)) = ''nvim'' \<and>
   GeminiModel (fst (initConfig False zeroConfig)) = ''gemini-1.5-flash-latest'' \<and>
   DefaultMood (fst (initConfig False zeroConfig)) = ''neutral'' \<and>
   Prompts (fst (initConfig False zeroConfig)) = defaultPromptsConfig \<and>
   Moods (fst (initConfig False zeroConfig)) = getDefaultMoods \<and>
   Default (Prompts (fst (initConfig False zeroConfig))) \<noteq> [] \<and>
   Moods (fst (initConfig False zeroConfig)) \<noteq> []"
  using initConfig_fully_populated [of False zeroConfig]
  by (simp add: initConfig_def zeroConfig_def Let_def defaultPromptsConfig_def)

section \<open>The neutral mood in \<open>answer\<close> and \<open>fix\<close> (C2)\<close>

text \<open>
  C2. When the mood resolution of \<open>answer\<close> ends with the key \<open>neutral\<close> and an empty
  instruction, the fixed sentence is what replaces \<open>{MOOD_INSTRUCTION}\<close> in the
  \<open>answer_question\<close> template. When the mood resolution of \<open>fix\<close> ends the same way, the
  empty string replaces \<open>{MOOD_INSTRUCTION}\<close> in the chosen template.
\<close>

theorem neutral_instruction_asymmetry:
  "(answer_moodLookup cfg g = (''neutral'', [], o1) \<longrightarrow>
      answer_moodInstructionText cfg g = ''Answer in a standard, helpful, and informative tone.'' \<and>
      answer_promptWithMood cfg g =
        ReplaceAll (AnswerQuestion (Prompts cfg)) ''{MOOD_INSTRUCTION}''
          ''Answer in a standard, helpful, and informative tone.'') \<and>
   (fix_moodInstructionText cfg f = (''neutral'', [], o2) \<longrightarrow>
      fix_finalPrompt cfg f = ReplaceAll (fst (fix_chosenPromptTemplate cfg f)) ''{MOOD_INSTRUCTION}'' [])"
  by (simp add: answer_moodInstructionText_def answer_promptWithMood_def fix_finalPrompt_eq)

theorem neutral_instruction_asymmetry_witness:
  "answer_moodLookup builtinConfig noAnswerFlags = (''neutral'', [], []) \<and>
   fix_moodInstructionText builtinConfig noFixFlags = (''neutral'', [], []) \<and>
   answer_promptWithMood builtinConfig noAnswerFlags =
     defaultAnswerQuestionPrompt_1 @ ''{LANGUAGE}'' @ defaultAnswerQuestionPrompt_2 @
     ''Answer in a standard, helpful, and informative tone.'' @
     defaultAnswerQuestionPrompt_3 @ ''{TEXT}'' @ defaultAnswerQuestionPrompt_4 \<and>
   fix_finalPrompt builtinConfig noFixFlags =
     defaultPrompt_1 @ ''{LANGUAGE}'' @ defaultPrompt_2 @ [] @ defaultPrompt_3 @ ''{TEXT}'' @ defaultPrompt_4"
proof -
  have a: "answer_moodLookup builtinConfig noAnswerFlags = (''neutral'', [], [])"
    by (simp add: answer_moodLookup_def builtinConfig_fields noAnswerFlags_def getDefaultMoods_def)
  have b: "fix_moodInstructionText builtinConfig noFixFlags = (''neutral'', [], [])"
    by (simp add: fix_moodInstructionText_def builtinConfig_fields noFixFlags_def getDefaultMoods_def)
  have t: "fst (fix_chosenPromptTemplate builtinConfig noFixFlags) = defaultPrompt"
    by (simp add: fix_chosenPromptTemplate_def builtinConfig_fields noFixFlags_def Let_def
        defaultPromptsConfig_def isASCII_def lowerASCII_def isUpperASCII_def char_of_def bit_Suc_0_iff)
  have q: "AnswerQuestion (Prompts builtinConfig) = defaultAnswerQuestionPrompt"
    by (simp add: builtinConfig_fields defaultPromptsConfig_def)
  from neutral_instruction_asymmetry [of builtinConfig noAnswerFlags "[]" noFixFlags "[]"] a b
  have "answer_promptWithMood builtinConfig noAnswerFlags =
          ReplaceAll (AnswerQuestion (Prompts builtinConfig)) ''{MOOD_INSTRUCTION}''
            ''Answer in a standard, helpful, and informative tone.''"
    and "fix_finalPrompt builtinConfig noFixFlags =
          ReplaceAll (fst (fix_chosenPromptTemplate builtinConfig noFixFlags)) ''{MOOD_INSTRUCTION}'' []"
    by blast+
  then show ?thesis
    unfolding t q assemble_defaultPrompt assemble_defaultAnswerQuestionPrompt using a b by blast
qed

section \<open>Placeholders of the resolved templates (C3)\<close>

text \<open>
  C3, as stated, fails: a loaded \<open>default\<close> template that holds \<open>{MOOD_INSTRUCTION}\<close> but not
  \<open>{TEXT}\<close> passes the check of \<open>initConfig\<close> and is kept as it is.
\<close>

theorem resolved_template_without_TEXT:
  "Default (Prompts (fst (initConfig False staleConfig))) = ''Fix this politely. {MOOD_INSTRUCTION}'' \<and>
   \<not> Contains (Default (Prompts (fst (initConfig False staleConfig)))) ''{TEXT}''"
  by (simp add: initConfig_def staleConfig_def zeroConfig_def Let_def)

text \<open>
  C3, amended. \<open>initConfig\<close> keeps a loaded template that is not empty and, for \<open>default\<close>
  and \<open>english_fix_only\<close>, holds \<open>{MOOD_INSTRUCTION}\<close>, whether it holds \<open>{TEXT}\<close> or not; it
  puts the built-in template in the place of any other. Every built-in template holds
  \<open>{TEXT}\<close>. So the resolved template of a task holds \<open>{TEXT}\<close> whenever the loaded one
  holds it or is replaced, and does not hold it when the loaded one is kept without it.
  The resolved \<open>default\<close> and \<open>english_fix_only\<close> templates hold \<open>{MOOD_INSTRUCTION}\<close> in
  every case.
\<close>

theorem resolved_templates_tokens:
  "let p = Prompts decoded; r = Prompts (fst (initConfig verbose decoded)) in
     Default r = (if Default p = [] \<or> \<not> Contains (Default p) ''{MOOD_INSTRUCTION}''
                  then Default defaultPromptsConfig else Default p) \<and>
     EnglishFixOnly r = (if EnglishFixOnly p = [] \<or> \<not> Contains (EnglishFixOnly p) ''{MOOD_INSTRUCTION}''
                         then EnglishFixOnly defaultPromptsConfig else EnglishFixOnly p) \<and>
     ExplainText r = (if ExplainText p = [] then ExplainText defaultPromptsConfig else ExplainText p) \<and>
     AnswerQuestion r = (if AnswerQuestion p = [] then AnswerQuestion defaultPromptsConfig
                         else AnswerQuestion p) \<and>
     Contains (Default defaultPromptsConfig) ''{TEXT}'' \<and>
     Contains (EnglishFixOnly defaultPromptsConfig) ''{TEXT}'' \<and>
     Contains (ExplainText defaultPromptsConfig) ''{TEXT}'' \<and>
     Contains (AnswerQuestion defaultPromptsConfig) ''{TEXT}'' \<and>
     (Contains (Default p) ''{TEXT}'' \<or> Default p = [] \<or> \<not> Contains (Default p) ''{MOOD_INSTRUCTION}''
        \<longrightarrow> Contains (Default r) ''{TEXT}'') \<and>
     (Contains (EnglishFixOnly p) ''{TEXT}'' \<or> EnglishFixOnly p = []
        \<or> \<not> Contains (EnglishFixOnly p) ''{MOOD_INSTRUCTION}''
        \<longrightarrow> Contains (EnglishFixOnly r) ''{TEXT}'') \<and>
     (Contains (ExplainText p) ''{TEXT}'' \<or> ExplainText p = [] \<longrightarrow> Contains (ExplainText r) ''{TEXT}'') \<and>
     (Contains (AnswerQuestion p) ''{TEXT}'' \<or> AnswerQuestion p = []
        \<longrightarrow> Contains (AnswerQuestion r) ''{TEXT}'') \<and>
     (Default p \<noteq> [] \<and> Contains (Default p) ''{MOOD_INSTRUCTION}'' \<and> \<not> Contains (Default p) ''{TEXT}''
        \<longrightarrow> \<not> Contains (Default r) ''{TEXT}'') \<and>
     (EnglishFixOnly p \<noteq> [] \<and> Contains (EnglishFixOnly p) ''{MOOD_INSTRUCTION}''
        \<and> \<not> Contains (EnglishFixOnly p) ''{TEXT}'' \<longrightarrow> \<not> Contains (EnglishFixOnly r) ''{TEXT}'') \<and>
     (ExplainText p \<noteq> [] \<and> \<not> Contains (ExplainText p) ''{TEXT}''
        \<longrightarrow> \<not> Contains (ExplainText r) ''{TEXT}'') \<and>
     (AnswerQuestion p \<noteq> [] \<and> \<not> Contains (AnswerQuestion p) ''{TEXT}''
        \<longrightarrow> \<not> Contains (AnswerQuestion r) ''{TEXT}'') \<and>
     Contains (Default r) ''{MOOD_INSTRUCTION}'' \<and>
     Contains (EnglishFixOnly r) ''{MOOD_INSTRUCTION}''"
  by (simp add: initConfig_def Let_def defaultPrompts_tokens)

theorem resolved_templates_tokens_witness:
  "Prompts (fst (initConfig False zeroConfig)) = defaultPromptsConfig \<and>
   Contains (Default (Prompts (fst (initConfig False zeroConfig)))) ''{TEXT}'' \<and>
   Contains (EnglishFixOnly (Prompts (fst (initConfig False zeroConfig)))) ''{TEXT}'' \<and>
   Contains (ExplainText (Prompts (fst (initConfig False zeroConfig)))) ''{TEXT}'' \<and>
   Contains (AnswerQuestion (Prompts (fst (initConfig False zeroConfig)))) ''{TEXT}'' \<and>
   Contains (Default (Prompts (fst (initConfig False zeroConfig)))) ''{MOOD_INSTRUCTION}'' \<and>
   Contains (EnglishFixOnly (Prompts (fst (initConfig False zeroConfig)))) ''{MOOD_INSTRUCTION}'' \<and>
   Default (Prompts (fst (initConfig False customConfig))) = ''Rewrite {TEXT} kindly. {MOOD_INSTRUCTION}'' \<and>
   Contains (Default (Prompts (fst (initConfig False customConfig)))) ''{TEXT}'' \<and>
   EnglishFixOnly (Prompts (fst (initConfig False customConfig))) = EnglishFixOnly defaultPromptsConfig \<and>
   Contains (EnglishFixOnly (Prompts (fst (initConfig False customConfig)))) ''{TEXT}'' \<and>
   ExplainText (Prompts (fst (initConfig False customConfig))) = ''Explain briefly.'' \<and>
   \<not> Contains (ExplainText (Prompts (fst (initConfig False customConfig)))) ''{TEXT}'' \<and>
   AnswerQuestion (Prompts (fst (initConfig False customConfig))) = AnswerQuestion defaultPromptsConfig \<and>
   Default (Prompts (fst (initConfig False staleConfig))) = Default (Prompts staleConfig) \<and>
   \<not> Contains (Default (Prompts (fst (initConfig False staleConfig)))) ''{TEXT}''"
proof -
  have z: "Prompts zeroConfig = \<lparr>Default = [], EnglishFixOnly = [], ExplainText = [], AnswerQuestion = []\<rparr>"
    by (simp add: zeroConfig_def)
  have c: "Prompts customConfig =
      \<lparr>Default = ''Rewrite {TEXT} kindly. {MOOD_INSTRUCTION}'',
       EnglishFixOnly = ''Proofread this English text: {TEXT}'',
       ExplainText = ''Explain briefly.'', AnswerQuestion = []\<rparr>"
    by (simp add: customConfig_def)
  have s: "Prompts staleConfig =
      \<lparr>Default = ''Fix this politely. {MOOD_INSTRUCTION}'', EnglishFixOnly = [],
       ExplainText = [], AnswerQuestion = []\<rparr>"
    by (simp add: staleConfig_def)
  have d: "defaultPromptsConfig = \<lparr>Default = Default defaultPromptsConfig,
       EnglishFixOnly = EnglishFixOnly defaultPromptsConfig, ExplainText = ExplainText defaultPromptsConfig,
       AnswerQuestion = AnswerQuestion defaultPromptsConfig\<rparr>"
    by simp
  have pz: "Prompts (fst (initConfig False zeroConfig)) = defaultPromptsConfig"
    using resolved_templates_tokens [of zeroConfig False] unfolding Let_def z
    by (subst d) (cases "Prompts (fst (initConfig False zeroConfig))", simp)
  show ?thesis
    using resolved_templates_tokens [of zeroConfig False] resolved_templates_tokens [of customConfig False]
          resolved_templates_tokens [of staleConfig False] pz
    unfolding Let_def z c s by simp
qed

section \<open>Mood fallback (C4)\<close>

text \<open>
  C4, as stated, fails twice. The empty key, given with \<open>--mood ""\<close>, is unknown to the
  built-in moods, and neither command prints a warning for it. And when \<open>neutral\<close> is
  requested under a configuration that has neither \<open>neutral\<close> nor its default mood \<open>zen\<close>
  in the map, \<open>answer\<close> does not use the empty instruction: it puts its fixed sentence in.
\<close>

theorem empty_mood_key_no_warning:
  "map_of (Moods builtinConfig) (DefaultMood builtinConfig) \<noteq> None \<and>
   DefaultMood builtinConfig = ''neutral'' \<and>
   map_of (Moods builtinConfig) '''' = None \<and>
   snd (snd (fix_moodInstructionText builtinConfig (noFixFlags\<lparr>moodKey := '''', moodChanged := True\<rparr>))) = [] \<and>
   snd (snd (answer_moodLookup builtinConfig
               (noAnswerFlags\<lparr>answerMoodKey := '''', answerMoodChanged := True\<rparr>))) = [] \<and>
   map_of (Moods sparseConfig) ''neutral'' = None \<and>
   map_of (Moods sparseConfig) (DefaultMood sparseConfig) = None \<and>
   answer_moodInstructionText sparseConfig (noAnswerFlags\<lparr>answerMoodKey := ''neutral'', answerMoodChanged := True\<rparr>)
     = ''Answer in a standard, helpful, and informative tone.'' \<and>
   answer_moodInstructionText sparseConfig (noAnswerFlags\<lparr>answerMoodKey := ''neutral'', answerMoodChanged := True\<rparr>)
     \<noteq> []"
  by (simp add: builtinConfig_fields getDefaultMoods_def fix_moodInstructionText_def
      answer_moodLookup_def answer_moodInstructionText_def noFixFlags_def noAnswerFlags_def sparseConfig_def)

text \<open>
  C4, amended. Let a requested key \<open>k\<close> be absent from the moods map. When the configured
  default mood is in the map, the mood lookup of \<open>fix\<close> and of \<open>answer\<close> yields the
  instruction of the default mood, and each command puts in the same text and builds the
  same prompt as when the default key itself is requested (with the default \<open>neutral\<close>, as
  for \<open>neutral\<close>; for \<open>answer\<close> that text is the fixed sentence when the default is
  \<open>neutral\<close> with an empty instruction). A warning is printed exactly when \<open>k\<close> is not
  empty. When the default key is not in the map either, a warning is printed and the
  lookup yields the empty instruction; \<open>fix\<close> puts the empty string in, and so does
  \<open>answer\<close> unless \<open>k\<close> is \<open>neutral\<close>, where it puts its fixed sentence in.
\<close>

theorem mood_fallback:
  "let fk = f\<lparr>moodKey := k, moodChanged := True\<rparr>;
       fd = f\<lparr>moodKey := DefaultMood cfg, moodChanged := True\<rparr>;
       gk = g\<lparr>answerMoodKey := k, answerMoodChanged := True\<rparr>;
       gd = g\<lparr>answerMoodKey := DefaultMood cfg, answerMoodChanged := True\<rparr>
   in (map_of (Moods cfg) k = None \<and> map_of (Moods cfg) (DefaultMood cfg) = Some d \<longrightarrow>
         fst (snd (fix_moodInstructionText cfg fk)) = Instruction d \<and>
         fst (snd (fix_moodInstructionText cfg fd)) = Instruction d \<and>
         fix_finalPrompt cfg fk = fix_finalPrompt cfg fd \<and>
         fst (snd (answer_moodLookup cfg gk)) = Instruction d \<and>
         fst (snd (answer_moodLookup cfg gd)) = Instruction d \<and>
         answer_moodInstructionText cfg gk = answer_moodInstructionText cfg gd \<and>
         answer_moodInstructionText cfg gk =
           (if Instruction d = [] \<and> DefaultMood cfg = ''neutral''
            then ''Answer in a standard, helpful, and informative tone.'' else Instruction d) \<and>
         answer_promptWithMood cfg gk = answer_promptWithMood cfg gd \<and>
         (k \<noteq> [] \<longrightarrow> snd (snd (fix_moodInstructionText cfg fk)) \<noteq> []
                    \<and> snd (snd (answer_moodLookup cfg gk)) \<noteq> []) \<and>
         (k = [] \<longrightarrow> snd (snd (fix_moodInstructionText cfg fk)) = []
                    \<and> snd (snd (answer_moodLookup cfg gk)) = [])) \<and>
      (map_of (Moods cfg) k = None \<and> map_of (Moods cfg) (DefaultMood cfg) = None \<longrightarrow>
         fst (snd (fix_moodInstructionText cfg fk)) = [] \<and>
         fix_finalPrompt cfg fk =
           ReplaceAll (fst (fix_chosenPromptTemplate cfg fk)) ''{MOOD_INSTRUCTION}'' [] \<and>
         snd (snd (fix_moodInstructionText cfg fk)) \<noteq> [] \<and>
         fst (snd (answer_moodLookup cfg gk)) = [] \<and>
         answer_moodInstructionText cfg gk =
           (if k = ''neutral'' then ''Answer in a standard, helpful, and informative tone.'' else []) \<and>
         answer_promptWithMood cfg gk =
           ReplaceAll (AnswerQuestion (Prompts cfg)) ''{MOOD_INSTRUCTION}''
             (if k = ''neutral'' then ''Answer in a standard, helpful, and informative tone.'' else []) \<and>
         snd (snd (answer_moodLookup cfg gk)) \<noteq> [])"
  by (auto simp: fix_moodInstructionText_def answer_moodLookup_def answer_moodInstructionText_def
      answer_promptWithMood_def fix_finalPrompt_eq fix_chosenPromptTemplate_mood Let_def)

theorem mood_fallback_witness:
  "fst (snd (fix_moodInstructionText builtinConfig (noFixFlags\<lparr>moodKey := ''bogus'', moodChanged := True\<rparr>)))
     = fst (snd (fix_moodInstructionText builtinConfig (noFixFlags\<lparr>moodKey := ''neutral'', moodChanged := True\<rparr>))) \<and>
   snd (snd (fix_moodInstructionText builtinConfig (noFixFlags\<lparr>moodKey := ''bogus'', moodChanged := True\<rparr>))) \<noteq> [] \<and>
   snd (snd (answer_moodLookup builtinConfig
               (noAnswerFlags\<lparr>answerMoodKey := ''bogus'', answerMoodChanged := True\<rparr>))) \<noteq> [] \<and>
   answer_moodInstructionText builtinConfig (noAnswerFlags\<lparr>answerMoodKey := ''bogus'', answerMoodChanged := True\<rparr>)
     = ''Answer in a standard, helpful, and informative tone.'' \<and>
   snd (snd (fix_moodInstructionText builtinConfig (noFixFlags\<lparr>moodKey := [], moodChanged := True\<rparr>))) = [] \<and>
   fst (snd (fix_moodInstructionText sparseConfig (noFixFlags\<lparr>moodKey := ''bogus'', moodChanged := True\<rparr>))) = [] \<and>
   snd (snd (fix_moodInstructionText sparseConfig (noFixFlags\<lparr>moodKey := ''bogus'', moodChanged := True\<rparr>))) \<noteq> [] \<and>
   answer_moodInstructionText sparseConfig (noAnswerFlags\<lparr>answerMoodKey := ''bogus'', answerMoodChanged := True\<rparr>)
     = [] \<and>
   snd (snd (answer_moodLookup sparseConfig
               (noAnswerFlags\<lparr>answerMoodKey := ''bogus'', answerMoodChanged := True\<rparr>))) \<noteq> [] \<and>
   fst (snd (fix_moodInstructionText sparseConfig (noFixFlags\<lparr>moodKey := ''neutral'', moodChanged := True\<rparr>))) = [] \<and>
   answer_moodInstructionText sparseConfig (noAnswerFlags\<lparr>answerMoodKey := ''neutral'', answerMoodChanged := True\<rparr>)
     = ''Answer in a standard, helpful, and informative tone.''"
proof -
  let ?d = "the (map_of getDefaultMoods ''neutral'')"
  have dm: "DefaultMood builtinConfig = ''neutral''" by (simp add: builtinConfig_fields)
  have i: "Instruction ?d = []" by (simp add: getDefaultMoods_def)
  have h1: "map_of (Moods builtinConfig) ''bogus'' = None \<and>
            map_of (Moods builtinConfig) (DefaultMood builtinConfig) = Some ?d"
    by (simp add: builtinConfig_fields getDefaultMoods_def)
  have h2: "map_of (Moods builtinConfig) [] = None \<and>
            map_of (Moods builtinConfig) (DefaultMood builtinConfig) = Some ?d"
    by (simp add: builtinConfig_fields getDefaultMoods_def)
  have h3: "map_of (Moods sparseConfig) ''bogus'' = None \<and>
            map_of (Moods sparseConfig) (DefaultMood sparseConfig) = None"
    by (simp add: sparseConfig_def)
  have h4: "map_of (Moods sparseConfig) ''neutral'' = None \<and>
            map_of (Moods sparseConfig) (DefaultMood sparseConfig) = None"
    by (simp add: sparseConfig_def)
  note r1 = mood_fallback [where f = noFixFlags and k = "''bogus''" and cfg = builtinConfig and g = noAnswerFlags
                  and d = ?d, unfolded Let_def, THEN conjunct1, THEN mp, OF h1]
  note r2 = mood_fallback [where f = noFixFlags and k = "[]" and cfg = builtinConfig and g = noAnswerFlags
                  and d = ?d, unfolded Let_def, THEN conjunct1, THEN mp, OF h2]
  note r3 = mood_fallback [where f = noFixFlags and k = "''bogus''" and cfg = sparseConfig and g = noAnswerFlags,
                  unfolded Let_def, THEN conjunct2, THEN mp, OF h3]
  note r4 = mood_fallback [where f = noFixFlags and k = "''neutral''" and cfg = sparseConfig and g = noAnswerFlags,
                  unfolded Let_def, THEN conjunct2, THEN mp, OF h4]
  have a1: "fst (snd (fix_moodInstructionText builtinConfig (noFixFlags\<lparr>moodKey := ''bogus'', moodChanged := True\<rparr>)))
     = fst (snd (fix_moodInstructionText builtinConfig (noFixFlags\<lparr>moodKey := ''neutral'', moodChanged := True\<rparr>)))"
    using r1 unfolding dm by simp
  have a2: "snd (snd (fix_moodInstructionText builtinConfig (noFixFlags\<lparr>moodKey := ''bogus'', moodChanged := True\<rparr>))) \<noteq> []"
    using r1 by simp
  have a3: "snd (snd (answer_moodLookup builtinConfig
               (noAnswerFlags\<lparr>answerMoodKey := ''bogus'', answerMoodChanged := True\<rparr>))) \<noteq> []"
    using r1 by simp
  have a4: "answer_moodInstructionText builtinConfig (noAnswerFlags\<lparr>answerMoodKey := ''bogus'', answerMoodChanged := True\<rparr>)
     = ''Answer in a standard, helpful, and informative tone.''"
    using r1 [THEN conjunct2, THEN conjunct2, THEN conjunct2, THEN conjunct2, THEN conjunct2,
              THEN conjunct2, THEN conjunct1]
    by (simp add: dm i)
  have a5: "snd (snd (fix_moodInstructionText builtinConfig (noFixFlags\<lparr>moodKey := [], moodChanged := True\<rparr>))) = []"
    using r2 by simp
  have a6: "fst (snd (fix_moodInstructionText sparseConfig (noFixFlags\<lparr>moodKey := ''bogus'', moodChanged := True\<rparr>))) = []"
    and a7: "snd (snd (fix_moodInstructionText sparseConfig (noFixFlags\<lparr>moodKey := ''bogus'', moodChanged := True\<rparr>))) \<noteq> []"
    and a8: "answer_moodInstructionText sparseConfig (noAnswerFlags\<lparr>answerMoodKey := ''bogus'', answerMoodChanged := True\<rparr>) = []"
    and a9: "snd (snd (answer_moodLookup sparseConfig
               (noAnswerFlags\<lparr>answerMoodKey := ''bogus'', answerMoodChanged := True\<rparr>))) \<noteq> []"
    using r3 by simp_all
  have a10: "fst (snd (fix_moodInstructionText sparseConfig (noFixFlags\<lparr>moodKey := ''neutral'', moodChanged := True\<rparr>))) = []"
    and a11: "answer_moodInstructionText sparseConfig (noAnswerFlags\<lparr>answerMoodKey := ''neutral'', answerMoodChanged := True\<rparr>)
     = ''Answer in a standard, helpful, and informative tone.''"
    using r4 by simp_all
  show ?thesis
    by (intro conjI a1 a2 a3 a4 a5 a6 a7 a8 a9 a10 a11)
qed

section \<open>Template selection of \<open>fix\<close> (C5)\<close>

text \<open>
  C5. With a \<open>--prompt\<close> key, \<open>default\<close> and \<open>english_fix_only\<close> (in any case of letters)
  select their template, and any other key selects the \<open>default\<close> template, prints a
  warning and leaves the language as resolved. Without a key, the \<open>english_fix_only\<close>
  template is selected exactly when the resolved language is \<open>English\<close> up to case and that
  template is not empty; the \<open>default\<close> template is selected otherwise.
\<close>

theorem fix_template_selection:
  "let targetLanguage = (if language f \<noteq> [] then language f else DefaultLanguage cfg);
       r = fix_chosenPromptTemplate cfg f in
     (promptKey f \<noteq> [] \<and> ToLower (promptKey f) = ''default'' \<longrightarrow>
        r = (Default (Prompts cfg), targetLanguage, [])) \<and>
     (promptKey f \<noteq> [] \<and> ToLower (promptKey f) = ''english_fix_only'' \<longrightarrow>
        r = (EnglishFixOnly (Prompts cfg), ''English'', [])) \<and>
     (promptKey f \<noteq> [] \<and> ToLower (promptKey f) \<noteq> ''default''
        \<and> ToLower (promptKey f) \<noteq> ''english_fix_only'' \<longrightarrow>
        fst r = Default (Prompts cfg) \<and> fst (snd r) = targetLanguage \<and> snd (snd r) \<noteq> []) \<and>
     (promptKey f = [] \<longrightarrow>
        r = (if EqualFold targetLanguage ''English'' \<and> EnglishFixOnly (Prompts cfg) \<noteq> []
             then EnglishFixOnly (Prompts cfg) else Default (Prompts cfg), targetLanguage, []))"
  by (simp add: fix_chosenPromptTemplate_def Let_def)

theorem fix_template_selection_witness:
  "fix_chosenPromptTemplate builtinConfig (noFixFlags\<lparr>promptKey := ''DEFAULT''\<rparr>)
     = (defaultPrompt, ''Norwegian'', []) \<and>
   fix_chosenPromptTemplate builtinConfig (noFixFlags\<lparr>promptKey := ''english_fix_only''\<rparr>)
     = (defaultEnglishFixOnlyPrompt, ''English'', []) \<and>
   fst (fix_chosenPromptTemplate builtinConfig (noFixFlags\<lparr>promptKey := ''formal'', language := ''German''\<rparr>))
     = defaultPrompt \<and>
   fst (snd (fix_chosenPromptTemplate builtinConfig (noFixFlags\<lparr>promptKey := ''formal'', language := ''German''\<rparr>)))
     = ''German'' \<and>
   snd (snd (fix_chosenPromptTemplate builtinConfig (noFixFlags\<lparr>promptKey := ''formal'', language := ''German''\<rparr>)))
     \<noteq> [] \<and>
   fix_chosenPromptTemplate builtinConfig (noFixFlags\<lparr>language := ''english''\<rparr>)
     = (defaultEnglishFixOnlyPrompt, ''english'', []) \<and>
   fix_chosenPromptTemplate builtinConfig noFixFlags = (defaultPrompt, ''Norwegian'', [])"
  using fix_template_selection [of "noFixFlags\<lparr>promptKey := ''DEFAULT''\<rparr>" builtinConfig]
        fix_template_selection [of "noFixFlags\<lparr>promptKey := ''english_fix_only''\<rparr>" builtinConfig]
        fix_template_selection [of "noFixFlags\<lparr>promptKey := ''formal'', language := ''German''\<rparr>" builtinConfig]
        fix_template_selection [of "noFixFlags\<lparr>language := ''english''\<rparr>" builtinConfig]
        fix_template_selection [of noFixFlags builtinConfig]
        defaultPrompts_nonempty(2)
  by (simp add: Let_def noFixFlags_def builtinConfig_fields defaultPromptsConfig_def
      lowerASCII_def isUpperASCII_def isASCII_def char_of_def bit_Suc_0_iff)

section \<open>The \<open>--english\<close> flag (C6)\<close>

text \<open>
  C6. \<open>--english\<close> with a \<open>--language\<close> that is given and is not \<open>English\<close> up to case ends
  the command with the error message and exit code 1; the only event is that message, so
  no editor runs and no client is made or called. Without such a conflict the language
  becomes \<open>English\<close> and, unless \<open>--prompt\<close> was given, the prompt key becomes
  \<open>english_fix_only\<close>, which selects that template.
\<close>

theorem english_flag_conflict:
  "(englishShorthand f \<and> language f \<noteq> [] \<and> \<not> EqualFold (language f) ''English'' \<longrightarrow>
      fixCmd w verbose cfg f =
        ([Stderr (''--english flag is incompatible with --language specifying a different language than English'' @ ''\<newline>'')], 1)
      \<and> (\<forall>e \<in> set (fst (fixCmd w verbose cfg f)). \<not> isRunEditor e \<and> \<not> isNetwork e)) \<and>
   (englishShorthand f \<and> \<not> (language f \<noteq> [] \<and> \<not> EqualFold (language f) ''English'') \<longrightarrow>
      PersistentPreRunE f =
        Inr (f\<lparr>language := ''English'',
               promptKey := (if promptChanged f then promptKey f else ''english_fix_only'')\<rparr>)
      \<and> fixCmd w verbose cfg f =
          fixCmd_Run w verbose cfg (f\<lparr>language := ''English'',
               promptKey := (if promptChanged f then promptKey f else ''english_fix_only'')\<rparr>)
      \<and> (\<not> promptChanged f \<longrightarrow>
           fix_chosenPromptTemplate cfg (f\<lparr>language := ''English'', promptKey := ''english_fix_only''\<rparr>)
             = (EnglishFixOnly (Prompts cfg), ''English'', [])))"
  by (auto simp: fixCmd_def PersistentPreRunE_def fix_chosenPromptTemplate_def lowerASCII_def isUpperASCII_def)

theorem english_flag_conflict_witness:
  "fixCmd (quietWorld ''helo wrold'') False builtinConfig
       (noFixFlags\<lparr>englishShorthand := True, language := ''German''\<rparr>)
     = ([Stderr (''--english flag is incompatible with --language specifying a different language than English'' @ ''\<newline>'')], 1) \<and>
   PersistentPreRunE (noFixFlags\<lparr>englishShorthand := True\<rparr>)
     = Inr (noFixFlags\<lparr>englishShorthand := True, language := ''English'', promptKey := ''english_fix_only''\<rparr>) \<and>
   PersistentPreRunE (noFixFlags\<lparr>englishShorthand := True, language := ''ENGLISH'',
                                  promptKey := ''default'', promptChanged := True\<rparr>)
     = Inr (noFixFlags\<lparr>englishShorthand := True, language := ''English'',
                          promptKey := ''default'', promptChanged := True\<rparr>)"
  using english_flag_conflict [of "noFixFlags\<lparr>englishShorthand := True, language := ''German''\<rparr>"
               "quietWorld ''helo wrold''" False builtinConfig]
        english_flag_conflict [of "noFixFlags\<lparr>englishShorthand := True\<rparr>" "quietWorld ''helo wrold''" False builtinConfig]
        english_flag_conflict [of "noFixFlags\<lparr>englishShorthand := True, language := ''ENGLISH'',
                                  promptKey := ''default'', promptChanged := True\<rparr>"
               "quietWorld ''helo wrold''" False builtinConfig]
  by (simp add: noFixFlags_def lowerASCII_def isUpperASCII_def isASCII_def char_of_def bit_Suc_0_iff)

section \<open>Prompt assembly, end to end (C7)\<close>

text \<open>
  C7. \<open>fix\<close> replaces \<open>{MOOD_INSTRUCTION}\<close> in the chosen template by the mood instruction:
  an occurrence of the placeholder becomes the instruction, and an occurrence of \<open>{TEXT}\<close>
  or \<open>{LANGUAGE}\<close> stays where it is, whatever surrounds it. \<open>ProcessText\<close> then replaces
  \<open>{TEXT}\<close> by the input text and \<open>{LANGUAGE}\<close> by the language, and sends the result. End
  to end, under a configuration with the built-in templates and moods, with the language
  \<open>English\<close>, the mood \<open>professional\<close> and the input \<open>helo wrold\<close> (any other flags, a
  credential, an editor and a client that work), the prompt sent to the model holds the
  input text, \<open>English\<close> and the instruction of the professional mood, and does not hold
  \<open>{MOOD_INSTRUCTION}\<close>.
\<close>

theorem prompt_assembly_end_to_end:
  "fix_finalPrompt cfg f =
     ReplaceAll (fst (fix_chosenPromptTemplate cfg f)) ''{MOOD_INSTRUCTION}''
       (fst (snd (fix_moodInstructionText cfg f))) \<and>
   ReplaceAll (a @ ''{MOOD_INSTRUCTION}'' @ b) ''{MOOD_INSTRUCTION}'' m =
     ReplaceAll a ''{MOOD_INSTRUCTION}'' m @ m @ ReplaceAll b ''{MOOD_INSTRUCTION}'' m \<and>
   ReplaceAll (a @ ''{TEXT}'' @ b) ''{MOOD_INSTRUCTION}'' m =
     ReplaceAll a ''{MOOD_INSTRUCTION}'' m @ ''{TEXT}'' @ ReplaceAll b ''{MOOD_INSTRUCTION}'' m \<and>
   ReplaceAll (a @ ''{LANGUAGE}'' @ b) ''{MOOD_INSTRUCTION}'' m =
     ReplaceAll a ''{MOOD_INSTRUCTION}'' m @ ''{LANGUAGE}'' @ ReplaceAll b ''{MOOD_INSTRUCTION}'' m \<and>
   ProcessText w0 textToProcess promptTemplate targetLanguage =
     ([GenerateContent (ReplaceAll (ReplaceAll promptTemplate ''{TEXT}'' textToProcess) ''{LANGUAGE}'' targetLanguage)],
      generateContent w0 (ReplaceAll (ReplaceAll promptTemplate ''{TEXT}'' textToProcess) ''{LANGUAGE}'' targetLanguage)) \<and>
   (Prompts c = defaultPromptsConfig \<and> Moods c = getDefaultMoods \<and>
    language f' = ''English'' \<and> moodChanged f' \<and> moodKey f' = ''professional'' \<and>
    getGeminiAPIKey w = Inr apiKey \<and> apiKey \<noteq> [] \<and>
    getTextFromEditor w (Editor c) = Inr ''helo wrold'' \<and>
    newGeminiClient w apiKey (GeminiModel c) = None \<longrightarrow>
      (let final = ProcessText_finalPrompt ''helo wrold'' (fix_finalPrompt c f') ''English''
       in GenerateContent final \<in> set (fst (fixCmd_Run w verbose c f')) \<and>
          Instruction (the (map_of (Moods c) ''professional'')) = professionalInstruction \<and>
          Contains final ''helo wrold'' \<and> Contains final ''English'' \<and>
          Contains final professionalInstruction \<and> \<not> Contains final ''{MOOD_INSTRUCTION}''))"
proof (intro conjI impI)
  show "fix_finalPrompt cfg f =
     ReplaceAll (fst (fix_chosenPromptTemplate cfg f)) ''{MOOD_INSTRUCTION}''
       (fst (snd (fix_moodInstructionText cfg f)))"
    by (rule fix_finalPrompt_eq)
  show "ProcessText w0 textToProcess promptTemplate targetLanguage =
     ([GenerateContent (ReplaceAll (ReplaceAll promptTemplate ''{TEXT}'' textToProcess) ''{LANGUAGE}'' targetLanguage)],
      generateContent w0 (ReplaceAll (ReplaceAll promptTemplate ''{TEXT}'' textToProcess) ''{LANGUAGE}'' targetLanguage))"
    by (simp only: ProcessText_def ProcessText_finalPrompt_def Let_def)
next
  assume h: "Prompts c = defaultPromptsConfig \<and> Moods c = getDefaultMoods \<and>
    language f' = ''English'' \<and> moodChanged f' \<and> moodKey f' = ''professional'' \<and>
    getGeminiAPIKey w = Inr apiKey \<and> apiKey \<noteq> [] \<and>
    getTextFromEditor w (Editor c) = Inr ''helo wrold'' \<and>
    newGeminiClient w apiKey (GeminiModel c) = None"
  from h have lang: "fst (snd (fix_chosenPromptTemplate c f')) = ''English''"
    and tmpl: "fst (fix_chosenPromptTemplate c f') = defaultPrompt \<or>
               fst (fix_chosenPromptTemplate c f') = defaultEnglishFixOnlyPrompt"
    using scenario_template[of f' c] by simp_all
  from h have mood: "fst (snd (fix_moodInstructionText c f')) = professionalInstruction"
    using scenario_mood[of f' c] by simp
  have ne: "fst (fix_chosenPromptTemplate c f') \<noteq> []"
    using tmpl defaultPrompts_nonempty(1,2) by (auto simp: defaultPromptsConfig_def)
  have trim: "TrimSpace ''helo wrold'' \<noteq> []" unfolding TrimSpace_helo by simp
  have gen: "GenerateContent (ProcessText_finalPrompt ''helo wrold'' (fix_finalPrompt c f') ''English'')
               \<in> set (fst (fixCmd_Run w verbose c f'))"
  proof -
    from h have h1: "getGeminiAPIKey w = Inr apiKey" and h2: "apiKey \<noteq> []"
      and h3: "getTextFromEditor w (Editor c) = Inr ''helo wrold''"
      and h4: "newGeminiClient w apiKey (GeminiModel c) = None"
      by simp_all
    from fixCmd_Run_generates[OF h1 h2 ne h3 trim h4, of verbose] show ?thesis
      unfolding lang .
  qed
  have instr: "Instruction (the (map_of (Moods c) ''professional'')) = professionalInstruction"
    using h by (simp add: professional_mood)
  have fp: "fix_finalPrompt c f' = ReplaceAll defaultPrompt ''{MOOD_INSTRUCTION}'' professionalInstruction \<or>
            fix_finalPrompt c f' =
              ReplaceAll defaultEnglishFixOnlyPrompt ''{MOOD_INSTRUCTION}'' professionalInstruction"
    unfolding fix_finalPrompt_eq mood using tmpl by auto
  from fp have props:
    "Contains (ProcessText_finalPrompt ''helo wrold'' (fix_finalPrompt c f') ''English'') ''helo wrold'' \<and>
     Contains (ProcessText_finalPrompt ''helo wrold'' (fix_finalPrompt c f') ''English'') ''English'' \<and>
     Contains (ProcessText_finalPrompt ''helo wrold'' (fix_finalPrompt c f') ''English'')
       professionalInstruction \<and>
     \<not> Contains (ProcessText_finalPrompt ''helo wrold'' (fix_finalPrompt c f') ''English'')
       ''{MOOD_INSTRUCTION}''"
  proof
    assume e: "fix_finalPrompt c f' = ReplaceAll defaultPrompt ''{MOOD_INSTRUCTION}'' professionalInstruction"
    show ?thesis unfolding e using scenario_default by blast
  next
    assume e: "fix_finalPrompt c f' =
                 ReplaceAll defaultEnglishFixOnlyPrompt ''{MOOD_INSTRUCTION}'' professionalInstruction"
    show ?thesis unfolding e using scenario_english by blast
  qed
  show "let final = ProcessText_finalPrompt ''helo wrold'' (fix_finalPrompt c f') ''English''
       in GenerateContent final \<in> set (fst (fixCmd_Run w verbose c f')) \<and>
          Instruction (the (map_of (Moods c) ''professional'')) = professionalInstruction \<and>
          Contains final ''helo wrold'' \<and> Contains final ''English'' \<and>
          Contains final professionalInstruction \<and> \<not> Contains final ''{MOOD_INSTRUCTION}''"
    unfolding Let_def using gen instr props by blast
qed (rule ReplaceAll_at_token)+

theorem prompt_assembly_end_to_end_witness:
  "let final = ProcessText_finalPrompt ''helo wrold'' (fix_finalPrompt builtinConfig professionalFlags) ''English''
   in GenerateContent final \<in> set (fst (fixCmd_Run (quietWorld ''helo wrold'') False builtinConfig professionalFlags)) \<and>
      Instruction (the (map_of (Moods builtinConfig) ''professional'')) = professionalInstruction \<and>
      Contains final ''helo wrold'' \<and> Contains final ''English'' \<and>
      Contains final professionalInstruction \<and> \<not> Contains final ''{MOOD_INSTRUCTION}''"
proof -
  have hyp: "Prompts builtinConfig = defaultPromptsConfig \<and> Moods builtinConfig = getDefaultMoods \<and>
    language professionalFlags = ''English'' \<and> moodChanged professionalFlags \<and>
    moodKey professionalFlags = ''professional'' \<and>
    getGeminiAPIKey (quietWorld ''helo wrold'') = Inr ''secret'' \<and> ''secret'' \<noteq> [] \<and>
    getTextFromEditor (quietWorld ''helo wrold'') (Editor builtinConfig) = Inr ''helo wrold'' \<and>
    newGeminiClient (quietWorld ''helo wrold'') ''secret'' (GeminiModel builtinConfig) = None"
    by (simp add: professionalFlags_def noFixFlags_def quietWorld_def builtinConfig_fields)
  from prompt_assembly_end_to_end [where c = builtinConfig and f' = professionalFlags and w = "quietWorld ''helo wrold''" and apiKey = "''secret''"
             and verbose = False, THEN conjunct2, THEN conjunct2, THEN conjunct2, THEN conjunct2, THEN conjunct2]
       hyp
  show ?thesis by (rule mp)
qed

section \<open>Empty input (C8)\<close>

text \<open>
  C8. When the credential is there, the configuration is a resolved one and the editor
  returns a text made of white space only (or empty), \<open>fix\<close> and \<open>answer\<close> print their
  notice and stop with exit code 0. The events are the warnings of the template and mood
  resolution, the line announcing the editor, the editor run and the notice: no client is
  made or called, nothing is written to the clipboard and no result is printed.
\<close>

theorem empty_input_cancels:
  assumes key: "getGeminiAPIKey w = Inr apiKey" "apiKey \<noteq> []"
    and cfg: "cfg = fst (initConfig v0 decoded)"
    and ws: "set ws \<subseteq> set whitespaceEncodings"
    and ed: "getTextFromEditor w (Editor cfg) = Inr (concat ws)"
  shows "fixCmd_Run w verbose cfg f =
           (map Stdout (snd (snd (fix_chosenPromptTemplate cfg f)) @ snd (snd (fix_moodInstructionText cfg f))) @
            [Stdout ''Opening editor for input...\<newline>'', RunEditor (Editor cfg),
             Stdout ''No input provided. Exiting.\<newline>''], 0) \<and>
         answerCmd_Run w verbose cfg g =
           (map Stdout (snd (snd (answer_moodLookup cfg g))) @
            [Stdout ''Opening editor for your question...\<newline>'', RunEditor (Editor cfg),
             Stdout ''No question provided. Exiting.\<newline>''], 0) \<and>
         (\<forall>e \<in> set (fst (fixCmd_Run w verbose cfg f)) \<union> set (fst (answerCmd_Run w verbose cfg g)).
            \<not> isNetwork e \<and> \<not> isWriteClipboard e)"
proof -
  have pop: "Default (Prompts cfg) \<noteq> []" "EnglishFixOnly (Prompts cfg) \<noteq> []"
            "AnswerQuestion (Prompts cfg) \<noteq> []"
    using initConfig_fully_populated_aux[of v0 decoded] cfg by (simp_all add: Let_def)
  have ne: "fst (fix_chosenPromptTemplate cfg f) \<noteq> []"
    by (rule fix_chosen_nonempty[OF pop(1,2)])
  have trim: "TrimSpace (concat ws) = []" using ws by (rule TrimSpace_whitespace)
  have fx: "fixCmd_Run w verbose cfg f =
           (map Stdout (snd (snd (fix_chosenPromptTemplate cfg f)) @ snd (snd (fix_moodInstructionText cfg f))) @
            [Stdout ''Opening editor for input...\<newline>'', RunEditor (Editor cfg),
             Stdout ''No input provided. Exiting.\<newline>''], 0)"
    using key ne ed trim by (auto simp: fixCmd_Run_def Let_def split: prod.splits)
  have an: "answerCmd_Run w verbose cfg g =
           (map Stdout (snd (snd (answer_moodLookup cfg g))) @
            [Stdout ''Opening editor for your question...\<newline>'', RunEditor (Editor cfg),
             Stdout ''No question provided. Exiting.\<newline>''], 0)"
    using key pop ed trim by (auto simp: answerCmd_Run_def Let_def split: prod.splits)
  show ?thesis unfolding fx an by auto
qed

theorem empty_input_cancels_witness:
  "fixCmd_Run (quietWorld '' \<newline>'') False builtinConfig noFixFlags
     = ([Stdout ''Opening editor for input...\<newline>'', RunEditor ''nvim'',
         Stdout ''No input provided. Exiting.\<newline>''], 0) \<and>
   answerCmd_Run (quietWorld '' \<newline>'') False builtinConfig noAnswerFlags
     = ([Stdout ''Opening editor for your question...\<newline>'', RunEditor ''nvim'',
         Stdout ''No question provided. Exiting.\<newline>''], 0)"
  using empty_input_cancels [of "quietWorld '' \<newline>''" "''secret''" builtinConfig False zeroConfig
               "['' '', ''\<newline>'']" False noFixFlags noAnswerFlags]
  by (simp add: quietWorld_def builtinConfig_def [symmetric] whitespaceEncodings_def
      builtinConfig_fields fix_chosenPromptTemplate_def fix_moodInstructionText_def
      answer_moodLookup_def noFixFlags_def noAnswerFlags_def getDefaultMoods_def Let_def isASCII_def)

section \<open>The mood key after the fallback (C9)\<close>

text \<open>
  C9. After the fallback from an unknown key to a default mood that is in the map,
  \<open>answer\<close> goes on with the default key as its mood key and \<open>fix\<close> keeps the unknown
  key. Hence, with the default \<open>neutral\<close> and an empty instruction, \<open>answer\<close> still puts its
  fixed sentence in, and \<open>fix\<close> puts the empty string in.
\<close>

theorem fallback_mood_key:
  "map_of (Moods cfg) k = None \<and> map_of (Moods cfg) (DefaultMood cfg) = Some d \<longrightarrow>
     fst (answer_moodLookup cfg (g\<lparr>answerMoodKey := k, answerMoodChanged := True\<rparr>)) = DefaultMood cfg \<and>
     fst (fix_moodInstructionText cfg (f\<lparr>moodKey := k, moodChanged := True\<rparr>)) = k \<and>
     (DefaultMood cfg = ''neutral'' \<and> Instruction d = [] \<longrightarrow>
        answer_moodInstructionText cfg (g\<lparr>answerMoodKey := k, answerMoodChanged := True\<rparr>)
          = ''Answer in a standard, helpful, and informative tone.'' \<and>
        fst (snd (fix_moodInstructionText cfg (f\<lparr>moodKey := k, moodChanged := True\<rparr>))) = [])"
  by (auto simp: fix_moodInstructionText_def answer_moodLookup_def answer_moodInstructionText_def)

theorem fallback_mood_key_witness:
  "fst (answer_moodLookup builtinConfig (noAnswerFlags\<lparr>answerMoodKey := ''bogus'', answerMoodChanged := True\<rparr>))
     = ''neutral'' \<and>
   fst (fix_moodInstructionText builtinConfig (noFixFlags\<lparr>moodKey := ''bogus'', moodChanged := True\<rparr>))
     = ''bogus'' \<and>
   answer_moodInstructionText builtinConfig (noAnswerFlags\<lparr>answerMoodKey := ''bogus'', answerMoodChanged := True\<rparr>)
     = ''Answer in a standard, helpful, and informative tone.'' \<and>
   fst (snd (fix_moodInstructionText builtinConfig (noFixFlags\<lparr>moodKey := ''bogus'', moodChanged := True\<rparr>)))
     = []"
  using fallback_mood_key [where cfg = builtinConfig and k = "''bogus''" and g = noAnswerFlags and f = noFixFlags
            and d = "the (map_of getDefaultMoods ''neutral'')"]
  by (simp add: builtinConfig_fields getDefaultMoods_def)

section \<open>A \<open>{LANGUAGE}\<close> token inside the input text (C10)\<close>

text \<open>
  C10, as stated, fails: with the language string \<open>{LANGUAGE}\<close> itself, an input text that
  holds \<open>{LANGUAGE}\<close> is still found as it is in the final prompt of the built-in \<open>default\<close>
  template.
\<close>

theorem language_token_input_kept_verbatim:
  "Contains ''see {LANGUAGE}'' ''{LANGUAGE}'' \<and>
   Contains (ProcessText_finalPrompt ''see {LANGUAGE}'' defaultPrompt ''{LANGUAGE}'') ''see {LANGUAGE}''"
proof -
  have "ReplaceAll defaultPrompt ''{TEXT}'' ''see {LANGUAGE}'' =
          defaultPrompt_1 @ ''{LANGUAGE}'' @ defaultPrompt_2 @ ''{MOOD_INSTRUCTION}'' @ defaultPrompt_3 @
          ''see {LANGUAGE}'' @ defaultPrompt_4"
    unfolding defaultPrompt_segments by (simp only: replace_steps ReplaceAll_tokens_more)
  then have "ProcessText_finalPrompt ''see {LANGUAGE}'' defaultPrompt ''{LANGUAGE}'' =
          defaultPrompt_1 @ ''{LANGUAGE}'' @ defaultPrompt_2 @ ''{MOOD_INSTRUCTION}'' @ defaultPrompt_3 @
          ''see {LANGUAGE}'' @ defaultPrompt_4"
    by (simp only: ProcessText_finalPrompt_def Let_def ReplaceAll_same[of "''{LANGUAGE}''", simplified])
  moreover have "Contains (defaultPrompt_1 @ ''{LANGUAGE}'' @ defaultPrompt_2 @ ''{MOOD_INSTRUCTION}'' @ defaultPrompt_3 @
          ''see {LANGUAGE}'' @ defaultPrompt_4) ''see {LANGUAGE}''"
    using Contains_mid[of "defaultPrompt_1 @ ''{LANGUAGE}'' @ defaultPrompt_2 @ ''{MOOD_INSTRUCTION}'' @ defaultPrompt_3"
            "''see {LANGUAGE}''" defaultPrompt_4]
    by (simp only: append_assoc)
  moreover have "Contains ''see {LANGUAGE}'' ''{LANGUAGE}''" by simp
  ultimately show ?thesis by (simp only: simp_thms)
qed

text \<open>
  C10, amended. \<open>ProcessText\<close> replaces \<open>{TEXT}\<close> first and \<open>{LANGUAGE}\<close> second, so the text
  put in place of \<open>{TEXT}\<close> is itself subject to the second replacement. When the language
  string holds no brace and holds a character that is not a letter of \<open>LANGUAGE\<close>, the
  final prompt holds no \<open>{LANGUAGE}\<close> at all, and an input text that holds \<open>{LANGUAGE}\<close> is
  not found in it as it was.
\<close>

theorem language_token_in_input_replaced:
  "ProcessText_finalPrompt textToProcess promptTemplate targetLanguage =
     ReplaceAll (ReplaceAll promptTemplate ''{TEXT}'' textToProcess) ''{LANGUAGE}'' targetLanguage \<and>
   ReplaceAll (a @ ''{TEXT}'' @ b) ''{TEXT}'' textToProcess =
     ReplaceAll a ''{TEXT}'' textToProcess @ textToProcess @ ReplaceAll b ''{TEXT}'' textToProcess \<and>
   (CHR ''{'' \<notin> set targetLanguage \<and> CHR ''}'' \<notin> set targetLanguage \<and>
    \<not> set targetLanguage \<subseteq> set ''LANGUAGE}'' \<and> Contains textToProcess ''{LANGUAGE}'' \<longrightarrow>
      \<not> Contains (ProcessText_finalPrompt textToProcess promptTemplate targetLanguage) ''{LANGUAGE}'' \<and>
      \<not> Contains (ProcessText_finalPrompt textToProcess promptTemplate targetLanguage) textToProcess)"
proof (intro conjI impI)
  show "ProcessText_finalPrompt textToProcess promptTemplate targetLanguage =
     ReplaceAll (ReplaceAll promptTemplate ''{TEXT}'' textToProcess) ''{LANGUAGE}'' targetLanguage"
    by (simp only: ProcessText_finalPrompt_def Let_def)
  show "ReplaceAll (a @ ''{TEXT}'' @ b) ''{TEXT}'' textToProcess =
     ReplaceAll a ''{TEXT}'' textToProcess @ textToProcess @ ReplaceAll b ''{TEXT}'' textToProcess"
    by (rule ReplaceAll_at_token)
next
  assume h: "CHR ''{'' \<notin> set targetLanguage \<and> CHR ''}'' \<notin> set targetLanguage \<and>
    \<not> set targetLanguage \<subseteq> set ''LANGUAGE}'' \<and> Contains textToProcess ''{LANGUAGE}''"
  have "\<not> Contains (ReplaceAll (ReplaceAll promptTemplate ''{TEXT}'' textToProcess)
                      (CHR ''{'' # ''LANGUAGE}'') targetLanguage) (CHR ''{'' # ''LANGUAGE}'')"
    using h by (intro ReplaceAll_no_token) simp_all
  then show no: "\<not> Contains (ProcessText_finalPrompt textToProcess promptTemplate targetLanguage) ''{LANGUAGE}''"
    by (simp only: ProcessText_finalPrompt_def Let_def simp_thms)
  show "\<not> Contains (ProcessText_finalPrompt textToProcess promptTemplate targetLanguage) textToProcess"
  proof
    assume "Contains (ProcessText_finalPrompt textToProcess promptTemplate targetLanguage) textToProcess"
    moreover from h have "Contains textToProcess ''{LANGUAGE}''" by simp
    ultimately have "Contains (ProcessText_finalPrompt textToProcess promptTemplate targetLanguage) ''{LANGUAGE}''"
      by (rule Contains_trans)
    with no show False ..
  qed
qed

theorem language_token_in_input_replaced_witness:
  "Contains ''see {LANGUAGE}'' ''{LANGUAGE}'' \<and>
   \<not> Contains (ProcessText_finalPrompt ''see {LANGUAGE}'' defaultPrompt ''English'') ''{LANGUAGE}'' \<and>
   \<not> Contains (ProcessText_finalPrompt ''see {LANGUAGE}'' defaultPrompt ''English'') ''see {LANGUAGE}''"
proof -
  have hyp: "CHR ''{'' \<notin> set ''English'' \<and> CHR ''}'' \<notin> set ''English'' \<and>
    \<not> set ''English'' \<subseteq> set ''LANGUAGE}'' \<and> Contains ''see {LANGUAGE}'' ''{LANGUAGE}''"
    by simp
  from language_token_in_input_replaced [where textToProcess = "''see {LANGUAGE}''" and promptTemplate = defaultPrompt
              and targetLanguage = "''English''", THEN conjunct2, THEN conjunct2] hyp
  have "\<not> Contains (ProcessText_finalPrompt ''see {LANGUAGE}'' defaultPrompt ''English'') ''{LANGUAGE}'' \<and>
      \<not> Contains (ProcessText_finalPrompt ''see {LANGUAGE}'' defaultPrompt ''English'') ''see {LANGUAGE}''"
    by (rule mp)
  with hyp show ?thesis by (simp only: simp_thms)
qed

end
